theory Spec2Isabelle
  imports Main "HOL-Library.Word"
begin

unbundle bit_operations_syntax

section \<open>Scalar types\<close>

text \<open>
  The host code of both render cores (RenderCore_Optix7Filter and RenderCore_OptixPrime_PBRT,
  each in its \<^verbatim>\<open>rendercore.cpp\<close>) is embedded function by function. \<^verbatim>\<open>uint\<close> is a
  32-bit word, so the counter arithmetic of the wavefront loop wraps as it does in C++.
  A \<^verbatim>\<open>float\<close> is kept as its IEEE-754 binary32 bit pattern: the host code never does
  arithmetic on the floats that matter here, it only stores, forwards and compares them.
  The \<^verbatim>\<open>int\<close> members of the core (screen size, samples per pixel, pixel capacity, sample
  count) are 32-bit words as well, read as two's complement where the source compares or
  shifts them. C++ leaves the overflow of a signed operation undefined; the compiled code
  wraps around, and so does the model. A conversion between \<^verbatim>\<open>int\<close> and \<^verbatim>\<open>uint\<close> keeps the
  bits. (The members are declared in a header outside the source at hand; the source passes
  them to \<^verbatim>\<open>make_int3\<close> and prints them with \<^verbatim>\<open>%i\<close>.)
\<close>

type_synonym uint = "32 word"
type_synonym float = "32 word"
type_synonym float3 = "float \<times> float \<times> float"
type_synonym float4 = "float \<times> float \<times> float \<times> float"
type_synonym mat4 = "float list"

definition isnan :: "float \<Rightarrow> bool" where
  "isnan f = (f AND 0x7F800000 = 0x7F800000 \<and> f AND 0x007FFFFF \<noteq> 0)"

text \<open>The C++ comparison \<^verbatim>\<open>a == b\<close> on floats: a NaN equals nothing, the two zeros are equal.\<close>

definition float_eq :: "float \<Rightarrow> float \<Rightarrow> bool" where
  "float_eq a b =
     (\<not> isnan a \<and> \<not> isnan b \<and> (a = b \<or> (a AND 0x7FFFFFFF = 0 \<and> b AND 0x7FFFFFFF = 0)))"

definition float_ne :: "float \<Rightarrow> float \<Rightarrow> bool" where
  "float_ne a b = (\<not> float_eq a b)"

text \<open>A C++ \<^verbatim>\<open>int\<close> is a 32-bit word read as two's complement (\<open>sint\<close>).
  \<open>size_t_of_int\<close> is the implicit conversion of an \<^verbatim>\<open>int\<close> to \<^verbatim>\<open>size_t\<close> (64 bits), as it
  happens to a vector index and to an operand compared with \<^verbatim>\<open>vector::size()\<close>:
  a negative index becomes a huge one.\<close>

type_synonym cint = "32 word"

text \<open>The C++ division of two \<^verbatim>\<open>int\<close>s, which rounds towards zero (\<open>div\<close> on HOL's integers
  rounds downwards).\<close>

definition int_div :: "cint \<Rightarrow> cint \<Rightarrow> cint" where
  "int_div a b = word_of_int (sgn (sint a) * sgn (sint b) * (\<bar>sint a\<bar> div \<bar>sint b\<bar>))"

definition size_t_of_int :: "cint \<Rightarrow> nat" where
  "size_t_of_int i = nat (sint i mod 2 ^ 64)"

datatype error = OutOfRange

section \<open>Scene instances: SetInstance\<close>

record CoreMesh =
  gasHandle :: "64 word"

record CoreInstance =
  mesh :: cint
  transform :: mat4

record OptixInstance =
  instTransform :: "float list"
  instanceId :: uint
  sbtOffset :: uint
  visibilityMask :: uint
  flags :: uint
  traversableHandle :: "64 word"

record CoreInstanceO7 = CoreInstance +
  instance_O7 :: OptixInstance

text \<open>\<^verbatim>\<open>instances[i]\<close> on a \<^verbatim>\<open>std::vector\<close>: outside the vector the behaviour of the C++
  program is undefined, which the model reports as \<open>OutOfRange\<close>.\<close>

definition at_index :: "'a list \<Rightarrow> cint \<Rightarrow> error + 'a" where
  "at_index xs i = (if size_t_of_int i < length xs then Inr (xs ! size_t_of_int i) else Inl OutOfRange)"

text \<open>RenderCore_OptixPrime_PBRT, \<^verbatim>\<open>RenderCore::SetInstance\<close>. \<open>fresh\<close> is the
  default-constructed \<^verbatim>\<open>CoreInstance\<close> (its class is declared outside the source at hand).\<close>

definition SetInstance_PBRT ::
  "CoreInstance \<Rightarrow> cint \<Rightarrow> cint \<Rightarrow> mat4 \<Rightarrow> CoreInstance list \<Rightarrow> error + CoreInstance list" where
  "SetInstance_PBRT fresh instanceIdx meshIdx matrix instances =
     (if meshIdx = -1 then
        Inr (if length instances > size_t_of_int instanceIdx
             then take (size_t_of_int instanceIdx) instances else instances)
      else
        let instances1 = (if size_t_of_int instanceIdx \<ge> length instances
                          then instances @ [fresh] else instances)
        in case at_index instances1 instanceIdx of
             Inl e \<Rightarrow> Inl e
           | Inr slot \<Rightarrow>
               Inr (instances1[size_t_of_int instanceIdx :=
                      slot\<lparr>mesh := meshIdx, transform := matrix\<rparr>]))"

text \<open>RenderCore_Optix7Filter, \<^verbatim>\<open>RenderCore::SetInstance\<close>. The new instance is zeroed
  (\<^verbatim>\<open>memset\<close>), given its id, mask and the mesh's acceleration-structure handle, and gets
  the first 12 floats of the matrix; \<open>fresh\<close> supplies the \<open>mesh\<close> field of the
  default-constructed object, which the last assignment overwrites.\<close>

definition newInstance_O7 :: "cint \<Rightarrow> cint \<Rightarrow> mat4 \<Rightarrow> 64 word \<Rightarrow> CoreInstanceO7" where
  "newInstance_O7 fresh instanceIdx matrix handle =
     \<lparr>mesh = fresh, transform = take 12 matrix,
      instance_O7 = \<lparr>instTransform = take 12 matrix, instanceId = instanceIdx,
                      sbtOffset = 0, visibilityMask = 255, flags = 0,
                      traversableHandle = handle\<rparr>\<rparr>"

definition SetInstance_O7 ::
  "cint \<Rightarrow> CoreMesh list \<Rightarrow> cint \<Rightarrow> cint \<Rightarrow> mat4 \<Rightarrow> CoreInstanceO7 list
     \<Rightarrow> error + CoreInstanceO7 list" where
  "SetInstance_O7 fresh meshes instanceIdx meshIdx matrix instances =
     (if meshIdx = -1 then
        Inr (if length instances > size_t_of_int instanceIdx
             then take (size_t_of_int instanceIdx) instances else instances)
      else
        case (if size_t_of_int instanceIdx \<ge> length instances
              then (case at_index meshes meshIdx of
                      Inl e \<Rightarrow> Inl e
                    | Inr m \<Rightarrow> Inr (instances @
                        [newInstance_O7 fresh instanceIdx matrix (gasHandle m)]))
              else Inr instances) of
          Inl e \<Rightarrow> Inl e
        | Inr instances1 \<Rightarrow>
            (case at_index instances1 instanceIdx of
               Inl e \<Rightarrow> Inl e
             | Inr slot \<Rightarrow>
                 Inr (instances1[size_t_of_int instanceIdx :=
                        slot\<lparr>mesh := meshIdx, transform := take 12 matrix,
                             instance_O7 := (instance_O7 slot)\<lparr>instTransform := take 12 matrix\<rparr>\<rparr>])))"

section \<open>The device and what the host asks of it\<close>

text \<open>
  The CUDA kernels, the OptiX pipeline and the OptiX Prime queries are not host code: the
  host only launches them. Every launch, transfer and staged write is a \<open>dev_op\<close> carrying
  the arguments the host passes; what a launch does to device memory is the parameter
  \<open>kernel\<close> of the environment. Two pieces of device memory are explicit, because the host
  itself writes them: the \<^verbatim>\<open>Counters\<close> object (\<^verbatim>\<open>CopyToDevice\<close>) and the accumulator
  (\<^verbatim>\<open>Clear\<close>). Every operation is also appended to \<open>trace\<close>, the log of what the host
  has issued, in order. Two entries of the log are no kernel launches: \<open>swapQueues\<close>, the
  host exchanging \<^verbatim>\<open>inBuffer\<close> and \<^verbatim>\<open>outBuffer\<close>, and \<open>newBuffers\<close>, the host deleting its
  buffers and allocating the listed ones.

  The arguments kept are: for \<open>paramsToDevice\<close> the view, \<^verbatim>\<open>params.j0\<close>, \<^verbatim>\<open>params.j1\<close> and
  \<^verbatim>\<open>params.pass\<close>; for \<open>optixLaunch\<close> the phase of the parameter block and the launch
  width and height; for \<open>shade\<close> the path count, the random seed \<^verbatim>\<open>R0\<close>, the pass, the path
  length and the view; for \<open>shadePrime\<close> (the \<^verbatim>\<open>shade\<close> of the OptiX Prime core) the path
  count, the queue read, the queue written, \<^verbatim>\<open>R0\<close>, the pass, the path length and the view;
  for \<open>generateEyeRays\<close> the queue written, \<^verbatim>\<open>R0\<close>, the pass and the view; for
  \<open>rtpQueryClosest\<close> the queue traced and the ray count; for the others their count.
\<close>

record Counters =
  extensionRays :: uint
  shadowRays :: uint
  totalExtensionRays :: uint
  probedInstid :: cint
  probedTriid :: cint
  probedDist :: float

record ViewPyramid =
  pos :: float3
  p1 :: float3
  p2 :: float3
  p3 :: float3
  aperture :: float
  spreadAngle :: float
  distortion :: float

datatype Convergence = Converge | Restart

datatype launch_phase = SPAWN_PRIMARY | SPAWN_SECONDARY | SPAWN_SHADOW

datatype dev_op =
    stageGeometryEpsilon float
  | stageClampValue float
  | stageDebugData
  | accumulatorClear
  | countersCopyToHost
  | countersCopyToDevice Counters
  | InitCountersForExtend uint
  | InitCountersSubsequent
  | optixAccelBuild
  | paramsToDevice ViewPyramid float float cint
  | optixLaunch launch_phase uint uint
  | shade uint uint cint nat ViewPyramid
  | prepareFilter cint
  | finalizeFilterDebug
  | applyFilter nat
  | TAApass
  | unsharpenTAA
  | finalizeNoTAA
  | finalizeRender cint
  | rtpModelUpdate
  | generateEyeRays nat uint cint ViewPyramid
  | rtpQueryClosest nat uint
  | rtpQueryAny uint
  | shadePrime uint nat nat uint cint nat ViewPyramid
  | finalizeConnections uint
  | swapQueues
  | newBuffers "(string \<times> nat) list"

record 'm gpu =
  devCounters :: Counters
  accumulator :: "float4 list"
  devMem :: 'm

text \<open>What the environment fixes: \<^verbatim>\<open>MAXPATHLENGTH\<close> (a macro of a header outside the source
  at hand), the device's reaction to a launch, \<^verbatim>\<open>RandomUInt\<close> (returns the random number
  and the updated seed), the contents of freshly allocated device memory, the indeterminate
  initial value of the local variable \<^verbatim>\<open>counters\<close> of \<^verbatim>\<open>RenderImpl\<close>, and the state of the
  F4 key that \<^verbatim>\<open>FinalizeRender\<close> polls.\<close>

record 'm env =
  MAXPATHLENGTH :: nat
  kernel :: "dev_op \<Rightarrow> 'm gpu \<Rightarrow> 'm gpu"
  RandomUInt :: "uint \<Rightarrow> uint \<times> uint"
  uninit :: "nat \<Rightarrow> float4"
  uninitCounters :: Counters
  keyF4 :: bool

section \<open>The core's state\<close>

record RenderVars =
  geometryEpsilon :: float
  clampValue :: float
  filterClampDirect :: float
  filterClampIndirect :: float
  filterEnabled :: cint
  TAAEnabled :: cint

text \<open>\<^verbatim>\<open>CoreStats\<close>: the ray counts and the probe result. The timings are read from timers and
  are not part of the model.\<close>

record CoreStats =
  cs_totalExtensionRays :: uint
  cs_totalShadowRays :: uint
  cs_totalRays :: uint
  primaryRayCount :: uint
  bounce1RayCount :: uint
  deepRayCount :: uint
  cs_probedInstid :: cint
  cs_probedTriid :: cint
  cs_probedDist :: float

record GLTexture =
  texID :: nat
  width :: uint
  height :: uint

text \<open>The members both cores have. \<open>buffers\<close> lists the allocated \<^verbatim>\<open>CoreBuffer\<close>s by name with
  their element counts (no entry: the pointer is null); \<open>counterBuffer\<close> is the host copy
  \<^verbatim>\<open>counterBuffer->HostPtr()[0]\<close>; \<open>staged\<close> holds the staged writes not yet pushed.\<close>

record 'm RenderCore =
  scrwidth :: cint
  scrheight :: cint
  scrspp :: cint
  maxPixels :: cint
  currentSPP :: cint
  samplesTaken :: cint
  firstConvergingFrame :: bool
  camRNGseed :: uint
  vars :: RenderVars
  staged :: "dev_op list"
  coreStats :: CoreStats
  counterBuffer :: Counters
  probePos :: "cint \<times> cint"
  renderTarget :: "GLTexture option"
  buffers :: "(string \<times> nat) list"
  gpu :: "'m gpu"
  trace :: "dev_op list"

text \<open>RenderCore_Optix7Filter adds the scene-data flag, the asynchronous render state, the
  jitter cycle and the filter's history. \<open>threadStats\<close> and \<open>threadSeed\<close> are
  \<^verbatim>\<open>renderThread->coreState.coreStats\<close> and \<^verbatim>\<open>renderThread->coreState.camRNGseed\<close>;
  \<open>filterSwapped\<close> tells whether the four buffer pairs that \<^verbatim>\<open>FinalizeRender\<close> exchanges
  together (filteredIN/OUT, shading/prevPixels, worldPos/prevWorldPos, moments/prevMoments)
  are exchanged with respect to their allocation; \<open>doneEvent\<close> is the signalled state of
  the auto-reset event of that name.\<close>

record 'm RenderCoreO7 = "'m RenderCore" +
  gpuHasSceneData :: bool
  asyncRenderInProgress :: bool
  frameCycle :: nat
  blueSlot :: nat
  j0 :: float
  j1 :: float
  prevj0 :: float
  prevj1 :: float
  prevView :: ViewPyramid
  filterSwapped :: bool
  threadStats :: CoreStats
  threadSeed :: uint
  doneEvent :: bool

text \<open>RenderCore_OptixPrime_PBRT adds the indices of the two extension-ray queues.\<close>

record 'm RenderCorePBRT = "'m RenderCore" +
  inBuffer :: nat
  outBuffer :: nat
  instancesDirty :: bool

definition launch :: "'m env \<Rightarrow> dev_op \<Rightarrow> ('m, 'x) RenderCore_scheme \<Rightarrow> ('m, 'x) RenderCore_scheme" where
  "launch E op s = s\<lparr>gpu := kernel E op (gpu s), trace := trace s @ [op]\<rparr>"

definition zero4 :: float4 where
  "zero4 = (0, 0, 0, 0)"

text \<open>\<^verbatim>\<open>accumulator->Clear( ON_DEVICE )\<close> on a core that has its accumulator: every element
  becomes zero. Until the first reallocating \<^verbatim>\<open>SetTarget\<close> the pointer is null, and the C++ call
  dereferences it: the program does not go on from there. The functions of this theory give
  what a call does that dereferences no null pointer. The theorems on the state \<^verbatim>\<open>Render\<close>
  leaves and on a \<^verbatim>\<open>SetTarget\<close> that does not reallocate assume that the core has its buffers
  (\<open>allocated_O7\<close>, \<open>allocated_PBRT\<close> below); the theorems on the iterations of the wavefront
  loop are about iterations that run, as they do on a core with buffers.\<close>

definition clearAccumulator :: "('m, 'x) RenderCore_scheme \<Rightarrow> ('m, 'x) RenderCore_scheme" where
  "clearAccumulator s =
     s\<lparr>gpu := (gpu s)\<lparr>accumulator := map (\<lambda>_. zero4) (accumulator (gpu s))\<rparr>,
       trace := trace s @ [accumulatorClear]\<rparr>"

text \<open>\<^verbatim>\<open>counterBuffer->CopyToHost()\<close> and \<^verbatim>\<open>counterBuffer->CopyToDevice()\<close>.\<close>

definition CopyToHost :: "('m, 'x) RenderCore_scheme \<Rightarrow> ('m, 'x) RenderCore_scheme" where
  "CopyToHost s = s\<lparr>counterBuffer := devCounters (gpu s), trace := trace s @ [countersCopyToHost]\<rparr>"

definition CopyToDevice :: "('m, 'x) RenderCore_scheme \<Rightarrow> ('m, 'x) RenderCore_scheme" where
  "CopyToDevice s =
     s\<lparr>gpu := (gpu s)\<lparr>devCounters := counterBuffer s\<rparr>,
       trace := trace s @ [countersCopyToDevice (counterBuffer s)]\<rparr>"

text \<open>\<^verbatim>\<open>GetSize()\<close> of a named buffer, on a core that has the buffer (see
  \<open>clearAccumulator\<close> on a core that has not).\<close>

definition bufSize :: "('m, 'x) RenderCore_scheme \<Rightarrow> string \<Rightarrow> nat" where
  "bufSize s name = (case map_of (buffers s) name of Some n \<Rightarrow> n | None \<Rightarrow> 0)"

section \<open>Setting\<close>

text \<open>\<^verbatim>\<open>stageGeometryEpsilon\<close> and \<^verbatim>\<open>stageClampValue\<close> queue a write to the device.\<close>

definition stage :: "dev_op \<Rightarrow> ('m, 'x) RenderCore_scheme \<Rightarrow> ('m, 'x) RenderCore_scheme" where
  "stage op s = s\<lparr>staged := staged s @ [op]\<rparr>"

definition is_zero :: "float \<Rightarrow> bool" where
  "is_zero v = float_eq v 0"

text \<open>RenderCore_Optix7Filter, \<^verbatim>\<open>RenderCore::Setting\<close>.\<close>

definition Setting_O7 :: "string \<Rightarrow> float \<Rightarrow> ('m, 'x) RenderCore_scheme \<Rightarrow> ('m, 'x) RenderCore_scheme" where
  "Setting_O7 name v s =
     (if name = ''epsilon'' then
        (if float_ne (geometryEpsilon (vars s)) v
         then stage (stageGeometryEpsilon v) (s\<lparr>vars := (vars s)\<lparr>geometryEpsilon := v\<rparr>\<rparr>)
         else s)
      else if name = ''clampValue'' then
        (if float_ne (clampValue (vars s)) v
         then stage (stageClampValue v) (s\<lparr>vars := (vars s)\<lparr>clampValue := v\<rparr>\<rparr>)
         else s)
      else if name = ''clampDirect'' then s\<lparr>vars := (vars s)\<lparr>filterClampDirect := v\<rparr>\<rparr>
      else if name = ''clampIndirect'' then s\<lparr>vars := (vars s)\<lparr>filterClampIndirect := v\<rparr>\<rparr>
      else if name = ''filter'' then s\<lparr>vars := (vars s)\<lparr>filterEnabled := (if is_zero v then 0 else 1)\<rparr>\<rparr>
      else if name = ''TAA'' then s\<lparr>vars := (vars s)\<lparr>TAAEnabled := (if is_zero v then 0 else 1)\<rparr>\<rparr>
      else s)"

text \<open>RenderCore_OptixPrime_PBRT, \<^verbatim>\<open>RenderCore::Setting\<close>.\<close>

definition Setting_PBRT :: "string \<Rightarrow> float \<Rightarrow> ('m, 'x) RenderCore_scheme \<Rightarrow> ('m, 'x) RenderCore_scheme" where
  "Setting_PBRT name v s =
     (if name = ''epsilon'' then
        (if float_ne (geometryEpsilon (vars s)) v
         then stage (stageGeometryEpsilon v) (s\<lparr>vars := (vars s)\<lparr>geometryEpsilon := v\<rparr>\<rparr>)
         else s)
      else if name = ''clampValue'' then
        (if float_ne (clampValue (vars s)) v
         then stage (stageClampValue v) (s\<lparr>vars := (vars s)\<lparr>clampValue := v\<rparr>\<rparr>)
         else s)
      else s)"

section \<open>SetTarget\<close>

text \<open>The element count of a \<^verbatim>\<open>new CoreBuffer\<close> is the value of its argument, which the
  source computes in 32 bits: as an \<^verbatim>\<open>int\<close> (read by \<open>elements\<close>) where all factors are
  \<^verbatim>\<open>int\<close>s, as a \<^verbatim>\<open>uint\<close> (read by \<open>unat\<close>) where the \<^verbatim>\<open>uint\<close> argument \<^verbatim>\<open>spp\<close> is a factor.
  The class \<^verbatim>\<open>CoreBuffer\<close> is declared outside the source at hand: a buffer is taken to hold
  as many elements as the count says, and none when the count is negative (as it is only
  after an overflow, or for a screen size or sample count beyond the range of \<^verbatim>\<open>int\<close>).\<close>

definition elements :: "cint \<Rightarrow> nat" where
  "elements n = nat (sint n)"

text \<open>The buffers RenderCore_Optix7Filter allocates, with the element counts of the
  \<^verbatim>\<open>new CoreBuffer\<close> calls; \<open>mp\<close> is \<^verbatim>\<open>maxPixels\<close> and \<open>spp\<close> is \<^verbatim>\<open>scrspp\<close>.\<close>

definition allocate_O7 :: "cint \<Rightarrow> cint \<Rightarrow> (string \<times> nat) list" where
  "allocate_O7 mp spp =
     [(''connectionBuffer'', elements (mp * spp * 3 * 2)), (''accumulator'', elements (mp * 2)),
      (''hitBuffer'', elements (mp * spp)), (''pathStateBuffer'', elements (mp * spp * 3)),
      (''features'', elements mp), (''shading'', elements (mp * 2)), (''motion'', elements mp),
      (''moments'', elements mp), (''prevMoments'', elements mp),
      (''prevPixels'', elements (mp * 2)), (''worldPos'', elements mp),
      (''prevWorldPos'', elements mp), (''filteredIN'', elements (mp * 2)),
      (''filteredOUT'', elements (mp * 2)), (''deltaDepth'', elements (mp * 2)),
      (''debugData'', elements mp)]"

text \<open>The buffers RenderCore_OptixPrime_PBRT allocates; \<open>mp\<close> is \<^verbatim>\<open>maxPixels\<close> and \<open>spp\<close> the
  argument of \<^verbatim>\<open>SetTarget\<close>. \<^verbatim>\<open>maxShadowRays\<close> is \<open>mp * spp * 2\<close>, and the buffer of the
  shadow hits has one bit per ray: \<^verbatim>\<open>(maxShadowRays + 31) >> 5\<close> elements.\<close>

definition allocate_PBRT :: "cint \<Rightarrow> uint \<Rightarrow> (string \<times> nat) list" where
  "allocate_PBRT mp spp =
     [(''extensionHitBuffer'', unat (mp * spp)), (''shadowRayBuffer'', unat (mp * spp * 2)),
      (''shadowRayPotential'', unat (mp * spp * 2)),
      (''shadowHitBuffer'', unat (drop_bit 5 (mp * spp * 2 + 31))),
      (''accumulator'', elements mp),
      (''extensionRayBuffer0'', unat (mp * spp)), (''extensionRayExBuffer0'', unat (mp * 2 * spp)),
      (''extensionRayBuffer1'', unat (mp * spp)), (''extensionRayExBuffer1'', unat (mp * 2 * spp))]"

text \<open>"synchronize OpenGL viewport": the screen size and the samples per pixel are taken from
  the arguments (\<^verbatim>\<open>target->width\<close> and \<^verbatim>\<open>target->height\<close> are \<^verbatim>\<open>uint\<close>s).\<close>

definition viewport :: "GLTexture \<Rightarrow> uint \<Rightarrow> ('m, 'x) RenderCore_scheme \<Rightarrow> ('m, 'x) RenderCore_scheme" where
  "viewport target spp s =
     s\<lparr>scrwidth := width target, scrheight := height target, scrspp := spp,
       renderTarget := Some target\<rparr>"

text \<open>The test both cores make, \<^verbatim>\<open>scrwidth * scrheight > maxPixels || spp != currentSPP\<close>: the
  first comparison is one of \<^verbatim>\<open>int\<close>s, with the product computed in 32 bits; the second
  compares a \<^verbatim>\<open>uint\<close> with an \<^verbatim>\<open>int\<close>, that is, their bits.\<close>

definition reallocate :: "uint \<Rightarrow> ('m, 'x) RenderCore_scheme \<Rightarrow> bool" where
  "reallocate spp s = (sint (scrwidth s * scrheight s) > sint (maxPixels s) \<or> spp \<noteq> currentSPP s)"

text \<open>The capacity they reserve, the pixel count plus a sixteenth: \<^verbatim>\<open>maxPixels >> 4\<close> in
  RenderCore_Optix7Filter (an arithmetic shift), \<^verbatim>\<open>maxPixels / 16\<close> in
  RenderCore_OptixPrime_PBRT.\<close>

definition reserve_O7 :: "uint \<Rightarrow> ('m, 'x) RenderCore_scheme \<Rightarrow> ('m, 'x) RenderCore_scheme" where
  "reserve_O7 spp s =
     (let mp = scrwidth s * scrheight s
      in s\<lparr>maxPixels := mp + signed_drop_bit 4 mp, currentSPP := spp\<rparr>)"

definition reserve_PBRT :: "uint \<Rightarrow> ('m, 'x) RenderCore_scheme \<Rightarrow> ('m, 'x) RenderCore_scheme" where
  "reserve_PBRT spp s =
     (let mp = scrwidth s * scrheight s
      in s\<lparr>maxPixels := mp + int_div mp 16, currentSPP := spp\<rparr>)"

text \<open>The \<^verbatim>\<open>delete\<close> and \<^verbatim>\<open>new CoreBuffer\<close> statements: the named buffers are replaced, and
  the new accumulator has \<open>n\<close> elements of whatever the fresh device memory holds.\<close>

definition newCoreBuffers ::
  "'m env \<Rightarrow> (string \<times> nat) list \<Rightarrow> nat \<Rightarrow> ('m, 'x) RenderCore_scheme \<Rightarrow> ('m, 'x) RenderCore_scheme" where
  "newCoreBuffers E bs n s =
     s\<lparr>buffers := bs, gpu := (gpu s)\<lparr>accumulator := map (uninit E) [0..<n]\<rparr>,
       trace := trace s @ [newBuffers bs]\<rparr>"

text \<open>RenderCore_Optix7Filter, \<^verbatim>\<open>RenderCore::SetTarget\<close>.\<close>

definition SetTarget_O7 ::
  "'m env \<Rightarrow> GLTexture \<Rightarrow> uint \<Rightarrow> ('m, 'x) RenderCoreO7_scheme \<Rightarrow> ('m, 'x) RenderCoreO7_scheme" where
  "SetTarget_O7 E target spp s =
     (let s1 = viewport target spp s;
          s2 = (if reallocate spp s1
                then stage stageDebugData
                       (newCoreBuffers E (allocate_O7 (maxPixels (reserve_O7 spp s1)) (scrspp s1))
                          (elements (maxPixels (reserve_O7 spp s1) * 2))
                          ((reserve_O7 spp s1)\<lparr>filterSwapped := False\<rparr>))
                else s1)
      in (clearAccumulator s2)\<lparr>samplesTaken := 0\<rparr>)"

text \<open>RenderCore_OptixPrime_PBRT, \<^verbatim>\<open>RenderCore::SetTarget\<close>. The OptiX Prime buffer
  descriptors, which only wrap the device pointers, are not modelled.\<close>

definition SetTarget_PBRT ::
  "'m env \<Rightarrow> GLTexture \<Rightarrow> uint \<Rightarrow> ('m, 'x) RenderCorePBRT_scheme \<Rightarrow> ('m, 'x) RenderCorePBRT_scheme" where
  "SetTarget_PBRT E target spp s =
     (let s1 = viewport target spp s;
          s2 = (if reallocate spp s1
                then newCoreBuffers E (allocate_PBRT (maxPixels (reserve_PBRT spp s1)) spp)
                       (elements (maxPixels (reserve_PBRT spp s1))) (reserve_PBRT spp s1)
                else s1)
      in (clearAccumulator s2)\<lparr>samplesTaken := 0\<rparr>)"


text \<open>The core has its buffers: it holds the buffers \<^verbatim>\<open>SetTarget\<close> allocates, and the
  accumulator on the device has the size it was allocated with. This is so from the first
  reallocating \<^verbatim>\<open>SetTarget\<close> on; before that the pointers are null.\<close>

definition allocated_O7 :: "('m, 'x) RenderCore_scheme \<Rightarrow> bool" where
  "allocated_O7 s =
     (map fst (buffers s) = map fst (allocate_O7 0 0)
      \<and> length (accumulator (gpu s)) = bufSize s ''accumulator'')"

definition allocated_PBRT :: "('m, 'x) RenderCore_scheme \<Rightarrow> bool" where
  "allocated_PBRT s =
     (map fst (buffers s) = map fst (allocate_PBRT 0 0)
      \<and> length (accumulator (gpu s)) = bufSize s ''accumulator'')"

section \<open>RenderCore_Optix7Filter: the frame\<close>

text \<open>\<^verbatim>\<open>pushStagedCopies\<close>: the staged writes go to the device, in order.\<close>

definition pushStagedCopies :: "'m env \<Rightarrow> ('m, 'x) RenderCore_scheme \<Rightarrow> ('m, 'x) RenderCore_scheme" where
  "pushStagedCopies E s = (fold (launch E) (staged s) s)\<lparr>staged := []\<rparr>"

text \<open>The jitter table of \<^verbatim>\<open>Render\<close>: 0.3, 0.7, 0.2, 0.8 and 0.2, 0.8, 0.7, 0.3 as binary32.
  \<^verbatim>\<open>frameCycle\<close> stays below 4 (\<^verbatim>\<open>(frameCycle + 1) & 3\<close>).\<close>

definition haltonx :: "nat \<Rightarrow> float" where
  "haltonx i = (if i = 0 then 0x3E99999A else if i = 1 then 0x3F333333
                else if i = 2 then 0x3E4CCCCD else 0x3F4CCCCD)"

definition haltony :: "nat \<Rightarrow> float" where
  "haltony i = (if i = 0 then 0x3E4CCCCD else if i = 1 then 0x3F4CCCCD
                else if i = 2 then 0x3F333333 else 0x3E99999A)"

text \<open>\<^verbatim>\<open>RenderCore::FinalizeRender\<close>.\<close>

definition FinalizeRender ::
  "'m env \<Rightarrow> ('m, 'x) RenderCoreO7_scheme \<Rightarrow> ('m, 'x) RenderCoreO7_scheme" where
  "FinalizeRender E s =
     (let s1 = s\<lparr>samplesTaken := samplesTaken s + scrspp s, blueSlot := (blueSlot s + 1) mod 256\<rparr>
      in if map_of (buffers s1) ''features'' \<noteq> None \<and> filterEnabled (vars s1) \<noteq> 0 then
           let s2 = launch E (prepareFilter (samplesTaken s1)) s1;
               s3 = (if keyF4 E then launch E finalizeFilterDebug s2
                     else
                       let s4 = launch E (applyFilter 3)
                                  (launch E (applyFilter 2) (launch E (applyFilter 1) s2))
                       in if TAAEnabled (vars s4) \<noteq> 0
                          then launch E unsharpenTAA (launch E TAApass s4)
                          else launch E finalizeNoTAA s4)
           in s3\<lparr>filterSwapped := \<not> filterSwapped s3, prevj0 := j0 s3, prevj1 := j1 s3\<rparr>
         else launch E (finalizeRender (samplesTaken s1)) s1)"

text \<open>The wavefront loop of \<^verbatim>\<open>RenderImpl\<close>, statement by statement. \<open>extend_O7\<close> is the
  "generate / extend" part of an iteration.\<close>

definition extend_O7 ::
  "'m env \<Rightarrow> nat \<Rightarrow> uint \<Rightarrow> ('m, 'x) RenderCore_scheme \<Rightarrow> ('m, 'x) RenderCore_scheme" where
  "extend_O7 E pathLength pathCount s =
     (if pathLength = 1 then
        launch E (optixLaunch SPAWN_PRIMARY (scrwidth s) (scrheight s * scrspp s))
          (launch E (InitCountersForExtend pathCount) s)
      else
        launch E (optixLaunch SPAWN_SECONDARY pathCount 1)
          (launch E InitCountersSubsequent
             (s\<lparr>coreStats :=
                  (if pathLength = 2 then (coreStats s)\<lparr>bounce1RayCount := pathCount\<rparr>
                   else (coreStats s)\<lparr>deepRayCount := deepRayCount (coreStats s) + pathCount\<rparr>)\<rparr>)))"

definition shade_O7 ::
  "'m env \<Rightarrow> ViewPyramid \<Rightarrow> nat \<Rightarrow> uint \<Rightarrow> ('m, 'x) RenderCore_scheme \<Rightarrow> ('m, 'x) RenderCore_scheme" where
  "shade_O7 E view pathLength pathCount s =
     (case RandomUInt E (camRNGseed s) of
        (r, seed) \<Rightarrow>
          launch E (shade pathCount (r + of_nat pathLength * 91771) (samplesTaken s) pathLength view)
            (s\<lparr>camRNGseed := seed\<rparr>))"

text \<open>"trace shadow rays now if the next loop iteration could overflow the buffer": the local
  copy \<open>counters\<close> gives the launch width, the host copy of the counter buffer is reset and
  sent to the device.\<close>

definition overflow_O7 ::
  "'m env \<Rightarrow> Counters \<Rightarrow> uint \<Rightarrow> ('m, 'x) RenderCore_scheme \<Rightarrow> ('m, 'x) RenderCore_scheme" where
  "overflow_O7 E counters pathCount s =
     (let maxShadowRays = (of_nat (bufSize s ''connectionBuffer'' div 3) :: uint)
      in if pathCount + shadowRays counters \<ge> maxShadowRays then
           (if shadowRays counters > 0 then
              (let s1 = launch E (optixLaunch SPAWN_SHADOW (shadowRays counters) 1) s
               in CopyToDevice (s1\<lparr>counterBuffer := (counterBuffer s1)\<lparr>shadowRays := 0\<rparr>\<rparr>))
            else s)
         else s)"

text \<open>One iteration of the loop: whether the loop goes on (no \<^verbatim>\<open>break\<close>), the new path
  count, the local \<open>counters\<close>, and the state.\<close>

definition bounce_O7 ::
  "'m env \<Rightarrow> ViewPyramid \<Rightarrow> nat \<Rightarrow> uint \<Rightarrow> ('m, 'x) RenderCore_scheme
     \<Rightarrow> bool \<times> uint \<times> Counters \<times> ('m, 'x) RenderCore_scheme" where
  "bounce_O7 E view pathLength pathCount s =
     (let s1 = CopyToHost (shade_O7 E view pathLength pathCount (extend_O7 E pathLength pathCount s));
          counters = counterBuffer s1;
          pathCount1 = extensionRays counters
      in if pathCount1 = 0 then (False, pathCount1, counters, s1)
         else (True, pathCount1, counters, overflow_O7 E counters pathCount1 s1))"

function wavefront_O7 ::
  "'m env \<Rightarrow> ViewPyramid \<Rightarrow> nat \<Rightarrow> uint \<Rightarrow> Counters \<Rightarrow> ('m, 'x) RenderCore_scheme
     \<Rightarrow> uint \<times> Counters \<times> ('m, 'x) RenderCore_scheme" where
  "wavefront_O7 E view pathLength pathCount counters s =
     (if pathLength \<le> MAXPATHLENGTH E then
        (case bounce_O7 E view pathLength pathCount s of
           (continue, pathCount1, counters1, s1) \<Rightarrow>
             if continue then wavefront_O7 E view (pathLength + 1) pathCount1 counters1 s1
             else (pathCount1, counters1, s1))
      else (pathCount, counters, s))"
  by pat_completeness auto
termination
  by (relation "measure (\<lambda>(E, view, pathLength, pathCount, counters, s). MAXPATHLENGTH E + 1 - pathLength)")
    auto

declare wavefront_O7.simps [simp del]

text \<open>\<^verbatim>\<open>RenderCore::RenderImpl\<close>. \<^verbatim>\<open>UpdateToplevel\<close> is one device operation here; the three
  parameter blocks go to the device as one \<open>paramsToDevice\<close>, with \<^verbatim>\<open>params.j0\<close> set to
  -5 when the filter is off. The jittered view is a function of the view, \<^verbatim>\<open>j0\<close>, \<^verbatim>\<open>j1\<close> and the
  screen size; the log keeps the view it is computed from.\<close>

definition gatherStats :: "Counters \<Rightarrow> CoreStats \<Rightarrow> CoreStats" where
  "gatherStats counters st =
     st\<lparr>cs_totalShadowRays := shadowRays counters,
        cs_totalExtensionRays := totalExtensionRays counters,
        cs_totalRays := totalExtensionRays counters + shadowRays counters,
        cs_probedInstid := probedInstid counters,
        cs_probedTriid := probedTriid counters,
        cs_probedDist := probedDist counters\<rparr>"

text \<open>\<^verbatim>\<open>RenderImpl\<close> from "render an image using OptiX" on: the parameters, the loop, the
  pending shadow rays and the statistics.\<close>

definition renderImage_O7 ::
  "'m env \<Rightarrow> ViewPyramid \<Rightarrow> ('m, 'x) RenderCoreO7_scheme \<Rightarrow> ('m, 'x) RenderCoreO7_scheme" where
  "renderImage_O7 E view s =
     (let s3 = s\<lparr>coreStats := (coreStats s)\<lparr>cs_totalExtensionRays := 0, cs_totalShadowRays := 0\<rparr>\<rparr>;
          s4 = launch E (paramsToDevice view
                 (if filterEnabled (vars s3) \<noteq> 0 then j0 s3 else 0xC0A00000) (j1 s3)
                 (samplesTaken s3)) s3;
          pathCount = scrwidth s4 * scrheight s4 * scrspp s4;
          s5 = s4\<lparr>coreStats := (coreStats s4)\<lparr>deepRayCount := 0, primaryRayCount := pathCount\<rparr>\<rparr>
      in case wavefront_O7 E view 1 pathCount (uninitCounters E) s5 of
           (pathCount1, counters, s6) \<Rightarrow>
             (let s7 = (if shadowRays counters > 0
                        then launch E (optixLaunch SPAWN_SHADOW (shadowRays counters) 1) s6
                        else s6)
              in s7\<lparr>coreStats := gatherStats counters (coreStats s7)\<rparr>))"

definition RenderImpl ::
  "'m env \<Rightarrow> ViewPyramid \<Rightarrow> ('m, 'x) RenderCoreO7_scheme \<Rightarrow> ('m, 'x) RenderCoreO7_scheme" where
  "RenderImpl E view s =
     (let s1 = launch E optixAccelBuild s;
          s2 = (if samplesTaken s1 = 0 then clearAccumulator s1 else s1)
      in renderImage_O7 E view s2)"

text \<open>The "handle converge restart" statements of \<^verbatim>\<open>Render\<close>, which both cores share (the
  OptiX Prime core clears the accumulator and resets the seed in the same branch).\<close>

definition restartFlag :: "Convergence \<Rightarrow> ('m, 'x) RenderCore_scheme \<Rightarrow> bool" where
  "restartFlag converge s = (converge = Restart \<or> firstConvergingFrame s)"

definition clearFlag :: "Convergence \<Rightarrow> ('m, 'x) RenderCore_scheme \<Rightarrow> ('m, 'x) RenderCore_scheme" where
  "clearFlag converge s = (if converge = Converge then s\<lparr>firstConvergingFrame := False\<rparr> else s)"

definition jitter :: "('m, 'x) RenderCoreO7_scheme \<Rightarrow> ('m, 'x) RenderCoreO7_scheme" where
  "jitter s =
     (let on = (TAAEnabled (vars s) \<noteq> 0 \<and> filterEnabled (vars s) \<noteq> 0)
      in s\<lparr>j0 := (if on then haltonx (frameCycle s) else 0),
            j1 := (if on then haltony (frameCycle s) else 0),
            frameCycle := (frameCycle s + 1) mod 4\<rparr>)"

text \<open>Modelled from the spec: the worker thread. \<^verbatim>\<open>RenderThread::Init\<close> is declared outside
  the source at hand; "asynchronous mode hands the frame to a single dedicated worker
  execution context and returns immediately; a completion signal must be awaited by the
  caller". The worker's \<^verbatim>\<open>run\<close> (which is in the source) calls \<^verbatim>\<open>RenderImpl\<close> on its copy
  \<^verbatim>\<open>coreState\<close> of the core and sets \<^verbatim>\<open>doneEvent\<close>. The model runs the worker at the
  hand-over: the copy shares the device and the counter buffer with the core, and keeps its
  own statistics and seed until \<^verbatim>\<open>WaitForRender\<close> fetches them.\<close>

definition runWorker ::
  "'m env \<Rightarrow> ViewPyramid \<Rightarrow> ('m, 'x) RenderCoreO7_scheme \<Rightarrow> ('m, 'x) RenderCoreO7_scheme" where
  "runWorker E view s =
     (let w = RenderImpl E view s
      in s\<lparr>gpu := gpu w, trace := trace w, counterBuffer := counterBuffer w,
            threadStats := coreStats w, threadSeed := camRNGseed w, doneEvent := True\<rparr>)"

text \<open>\<^verbatim>\<open>RenderCore::Render\<close>.\<close>

definition Render_O7 ::
  "'m env \<Rightarrow> ViewPyramid \<Rightarrow> Convergence \<Rightarrow> bool \<Rightarrow> ('m, 'x) RenderCoreO7_scheme
     \<Rightarrow> ('m, 'x) RenderCoreO7_scheme" where
  "Render_O7 E view converge async s =
     (if \<not> gpuHasSceneData s then s
      else
        let s1 = pushStagedCopies E s;
            s2 = (if restartFlag converge s1
                  then s1\<lparr>samplesTaken := 0, firstConvergingFrame := True\<rparr> else s1);
            s3 = jitter (clearFlag converge s2);
            s4 = (if async then runWorker E view (s3\<lparr>asyncRenderInProgress := True\<rparr>)
                  else FinalizeRender E (RenderImpl E view s3))
        in s4\<lparr>prevView := view\<rparr>)"

text \<open>\<^verbatim>\<open>RenderCore::WaitForRender\<close>. Waiting for \<^verbatim>\<open>doneEvent\<close> returns when the event is
  signalled, and resets it; when it is not, nobody will signal it and the call never
  returns, which is the result \<open>None\<close>.\<close>

definition WaitForRender ::
  "'m env \<Rightarrow> ('m, 'x) RenderCoreO7_scheme \<Rightarrow> ('m, 'x) RenderCoreO7_scheme option" where
  "WaitForRender E s =
     (if \<not> asyncRenderInProgress s then Some s
      else if \<not> doneEvent s then None
      else Some (FinalizeRender E
             (s\<lparr>doneEvent := False, asyncRenderInProgress := False,
                coreStats := threadStats s, camRNGseed := threadSeed s\<rparr>)))"

section \<open>RenderCore_OptixPrime_PBRT: the frame\<close>

text \<open>The statistics line of an iteration: which ray count the path count is stored in.\<close>

definition countRays :: "nat \<Rightarrow> uint \<Rightarrow> CoreStats \<Rightarrow> CoreStats" where
  "countRays pathLength pathCount st =
     (if pathLength = 1 then st\<lparr>primaryRayCount := pathCount\<rparr>
      else if pathLength = 2 then st\<lparr>bounce1RayCount := pathCount\<rparr>
      else st\<lparr>deepRayCount := pathCount\<rparr>)"

text \<open>"extend" and "shade" of an iteration: the closest-hit query over the input queue, then
  the shading kernel, which reads queue \<open>inBuffer\<close> and writes queue \<open>outBuffer\<close>.\<close>

definition extendShade_PBRT ::
  "'m env \<Rightarrow> ViewPyramid \<Rightarrow> nat \<Rightarrow> uint \<Rightarrow> ('m, 'x) RenderCorePBRT_scheme
     \<Rightarrow> ('m, 'x) RenderCorePBRT_scheme" where
  "extendShade_PBRT E view pathLength pathCount s =
     (let s1 = launch E (rtpQueryClosest (inBuffer s) pathCount) s;
          s2 = s1\<lparr>coreStats := countRays pathLength pathCount (coreStats s1)\<rparr>
      in launch E (shadePrime pathCount (inBuffer s2) (outBuffer s2)
                     (samplesTaken s2 * 7907 + of_nat pathLength * 91771)
                     (samplesTaken s2) pathLength view) s2)"

text \<open>"handle overflowing shadow ray buffer": \<open>counters\<close> is a reference to the host copy of
  the counter buffer.\<close>

definition overflow_PBRT ::
  "'m env \<Rightarrow> uint \<Rightarrow> ('m, 'x) RenderCore_scheme \<Rightarrow> ('m, 'x) RenderCore_scheme" where
  "overflow_PBRT E pathCount s =
     (let maxShadowRays = (of_nat (bufSize s ''shadowRayBuffer'') :: uint)
      in if shadowRays (counterBuffer s) + pathCount \<ge> maxShadowRays then
           (let s1 = launch E (finalizeConnections (shadowRays (counterBuffer s)))
                       (launch E (rtpQueryAny (shadowRays (counterBuffer s))) s)
            in CopyToDevice (s1\<lparr>counterBuffer := (counterBuffer s1)\<lparr>shadowRays := 0\<rparr>\<rparr>))
         else s)"

definition swapBuffers :: "('m, 'x) RenderCorePBRT_scheme \<Rightarrow> ('m, 'x) RenderCorePBRT_scheme" where
  "swapBuffers s = s\<lparr>inBuffer := outBuffer s, outBuffer := inBuffer s, trace := trace s @ [swapQueues]\<rparr>"

text \<open>One iteration: whether the loop goes on, the new path count, the state.\<close>

definition bounce_PBRT ::
  "'m env \<Rightarrow> ViewPyramid \<Rightarrow> nat \<Rightarrow> uint \<Rightarrow> ('m, 'x) RenderCorePBRT_scheme
     \<Rightarrow> bool \<times> uint \<times> ('m, 'x) RenderCorePBRT_scheme" where
  "bounce_PBRT E view pathLength pathCount s =
     (let s1 = extendShade_PBRT E view pathLength pathCount s
      in if pathLength = MAXPATHLENGTH E then (False, pathCount, s1)
         else
           let s2 = CopyToHost s1;
               pathCount1 = extensionRays (counterBuffer s2);
               s3 = overflow_PBRT E pathCount1 (swapBuffers s2)
           in (True, pathCount1, launch E InitCountersSubsequent s3))"

text \<open>The loop \<^verbatim>\<open>for (pathLength = 1; pathLength <= MAXPATHLENGTH; pathLength++)\<close>. The bound is
  the argument \<open>lastLength\<close>, which \<^verbatim>\<open>Render\<close> sets to \<^verbatim>\<open>MAXPATHLENGTH\<close>; a smaller \<open>lastLength\<close> gives the
  state after that many iterations.\<close>

function wavefront_PBRT ::
  "'m env \<Rightarrow> ViewPyramid \<Rightarrow> nat \<Rightarrow> nat \<Rightarrow> uint \<Rightarrow> ('m, 'x) RenderCorePBRT_scheme
     \<Rightarrow> uint \<times> ('m, 'x) RenderCorePBRT_scheme" where
  "wavefront_PBRT E view lastLength pathLength pathCount s =
     (if pathLength \<le> lastLength then
        (case bounce_PBRT E view pathLength pathCount s of
           (continue, pathCount1, s1) \<Rightarrow>
             if continue then wavefront_PBRT E view lastLength (pathLength + 1) pathCount1 s1
             else (pathCount1, s1))
      else (pathCount, s))"
  by pat_completeness auto
termination
  by (relation "measure (\<lambda>(E, view, lastLength, pathLength, pathCount, s). lastLength + 1 - pathLength)") auto

declare wavefront_PBRT.simps [simp del]

text \<open>"loop completed; handle gathered shadow rays".\<close>

definition connect_PBRT ::
  "'m env \<Rightarrow> ('m, 'x) RenderCore_scheme \<Rightarrow> ('m, 'x) RenderCore_scheme" where
  "connect_PBRT E s =
     (let s1 = CopyToHost s
      in if shadowRays (counterBuffer s1) > 0
         then launch E (finalizeConnections (shadowRays (counterBuffer s1)))
                (launch E (rtpQueryAny (shadowRays (counterBuffer s1))) s1)
         else s1)"

text \<open>"setup primary rays": the counters are initialised for the frame's path count and the
  camera rays are generated into the input queue.\<close>

definition primaryRays_PBRT ::
  "'m env \<Rightarrow> ViewPyramid \<Rightarrow> ('m, 'x) RenderCorePBRT_scheme \<Rightarrow> ('m, 'x) RenderCorePBRT_scheme" where
  "primaryRays_PBRT E view s =
     (let s2 = launch E (InitCountersForExtend (scrwidth s * scrheight s * scrspp s)) s
      in case RandomUInt E (camRNGseed s2) of
           (r, seed) \<Rightarrow>
             launch E (generateEyeRays (inBuffer s2) r (samplesTaken s2) view)
               (s2\<lparr>camRNGseed := seed\<rparr>))"

text \<open>\<^verbatim>\<open>RenderCore::Render\<close> from "render image" on: primary rays, the loop, the pending
  shadow rays, the statistics and the finalize pass.\<close>

definition renderImage_PBRT ::
  "'m env \<Rightarrow> ViewPyramid \<Rightarrow> ('m, 'x) RenderCorePBRT_scheme \<Rightarrow> ('m, 'x) RenderCorePBRT_scheme" where
  "renderImage_PBRT E view s =
     (let s1 = s\<lparr>coreStats := (coreStats s)\<lparr>cs_totalExtensionRays := 0\<rparr>\<rparr>;
          s3 = primaryRays_PBRT E view s1;
          pathCount = scrwidth s3 * scrheight s3 * scrspp s3
      in case wavefront_PBRT E view (MAXPATHLENGTH E) 1 pathCount s3 of
           (pathCount1, s4) \<Rightarrow>
             (let s5 = connect_PBRT E s4;
                  s6 = s5\<lparr>coreStats := (coreStats s5)
                          \<lparr>cs_totalShadowRays := shadowRays (counterBuffer s5),
                           cs_totalExtensionRays := totalExtensionRays (counterBuffer s5)\<rparr>,
                        samplesTaken := samplesTaken s5 + scrspp s5\<rparr>;
                  s7 = launch E (finalizeRender (samplesTaken s6)) s6
              in s7\<lparr>coreStats := (coreStats s7)
                      \<lparr>cs_totalRays := cs_totalExtensionRays (coreStats s7)
                                        + cs_totalShadowRays (coreStats s7),
                       cs_probedInstid := probedInstid (counterBuffer s7),
                       cs_probedTriid := probedTriid (counterBuffer s7),
                       cs_probedDist := probedDist (counterBuffer s7)\<rparr>\<rparr>))"

text \<open>\<^verbatim>\<open>RenderCore::UpdateToplevel\<close>: the top-level model is rebuilt on the device.\<close>

definition UpdateToplevel_PBRT ::
  "'m env \<Rightarrow> ('m, 'x) RenderCorePBRT_scheme \<Rightarrow> ('m, 'x) RenderCorePBRT_scheme" where
  "UpdateToplevel_PBRT E s = (launch E rtpModelUpdate s)\<lparr>instancesDirty := True\<rparr>"

text \<open>\<^verbatim>\<open>RenderCore::Render\<close>. The argument \<open>async\<close> is not used by this core.\<close>

definition Render_PBRT ::
  "'m env \<Rightarrow> ViewPyramid \<Rightarrow> Convergence \<Rightarrow> bool \<Rightarrow> ('m, 'x) RenderCorePBRT_scheme
     \<Rightarrow> ('m, 'x) RenderCorePBRT_scheme" where
  "Render_PBRT E view converge async s =
     (let s1 = UpdateToplevel_PBRT E s;
          s2 = (if restartFlag converge s1
                then (clearAccumulator s1)\<lparr>samplesTaken := 0, firstConvergingFrame := True,
                                           camRNGseed := 0x12345678\<rparr>
                else s1)
      in renderImage_PBRT E view (clearFlag converge s2))"

section \<open>The device as the specification describes it\<close>

text \<open>Modelled from the spec: the kernels \<^verbatim>\<open>InitCountersForExtend\<close>,
  \<^verbatim>\<open>InitCountersSubsequent\<close> and \<^verbatim>\<open>shade\<close>, which are CUDA code outside the source at hand
  (the host file only declares and launches them). The specification says of the counters
  that they are "written exclusively by device compute passes, reset before each dispatch",
  with the shadow-ray count "accumulated" over the iterations of a frame, and of the shading
  pass that it "consumes intersection results and the input ray queue" and produces "a new
  ray queue of continuation paths (possibly shorter)" and "zero or more shadow rays": "paths
  only shrink or terminate, never spawn more than one continuation each". The rest of the
  device memory is the \<open>scene\<close>: for each path length and each path of the input queue,
  whether the path continues and how many shadow rays it emits. Each path of the pass
  increments the counters as the kernel's threads do.\<close>

type_synonym scene = "nat \<Rightarrow> nat \<Rightarrow> bool \<times> nat"

definition shadePath :: "bool \<times> nat \<Rightarrow> Counters \<Rightarrow> Counters" where
  "shadePath r c =
     c\<lparr>extensionRays := (if fst r then extensionRays c + 1 else extensionRays c),
       shadowRays := shadowRays c + of_nat (snd r)\<rparr>"

definition shadePass :: "(nat \<Rightarrow> bool \<times> nat) \<Rightarrow> uint \<Rightarrow> Counters \<Rightarrow> Counters" where
  "shadePass outcome pathCount c = fold (\<lambda>i. shadePath (outcome i)) [0..<unat pathCount] c"

definition kernel_spec :: "dev_op \<Rightarrow> scene gpu \<Rightarrow> scene gpu" where
  "kernel_spec op g =
     (case op of
        InitCountersForExtend n \<Rightarrow>
          g\<lparr>devCounters := (devCounters g)\<lparr>extensionRays := 0, shadowRays := 0,
                                            totalExtensionRays := n\<rparr>\<rparr>
      | InitCountersSubsequent \<Rightarrow>
          g\<lparr>devCounters := (devCounters g)
               \<lparr>totalExtensionRays := totalExtensionRays (devCounters g) + extensionRays (devCounters g),
                extensionRays := 0\<rparr>\<rparr>
      | shade pathCount R0 pass pathLength view \<Rightarrow>
          g\<lparr>devCounters := shadePass (devMem g pathLength) pathCount (devCounters g)\<rparr>
      | shadePrime pathCount inB outB R0 pass pathLength view \<Rightarrow>
          g\<lparr>devCounters := shadePass (devMem g pathLength) pathCount (devCounters g)\<rparr>
      | _ \<Rightarrow> g)"

section \<open>What the log of a call shows\<close>

text \<open>The operations a call has issued: the log after it without the log before it.\<close>

definition issued :: "('m, 'x) RenderCore_scheme \<Rightarrow> ('m, 'y) RenderCore_scheme \<Rightarrow> dev_op list" where
  "issued s s1 = drop (length (trace s)) (trace s1)"

text \<open>An any-hit resolve of the pending shadow rays: the shadow launch of the OptiX core, the
  any-hit query of the OptiX Prime core.\<close>

fun isShadowResolve :: "dev_op \<Rightarrow> bool" where
  "isShadowResolve (optixLaunch SPAWN_SHADOW n h) = True"
| "isShadowResolve (rtpQueryAny n) = True"
| "isShadowResolve op = False"

fun isShade :: "dev_op \<Rightarrow> bool" where
  "isShade (shade pathCount R0 pass pathLength view) = True"
| "isShade (shadePrime pathCount inB outB R0 pass pathLength view) = True"
| "isShade op = False"

fun isSwap :: "dev_op \<Rightarrow> bool" where
  "isSwap swapQueues = True"
| "isSwap op = False"

definition flushed :: "dev_op list \<Rightarrow> bool" where
  "flushed ops = list_ex isShadowResolve ops"

text \<open>The operations of a log that make up a flush of the pending shadow rays: the any-hit
  resolve with its ray count, the processing of its hits in the OptiX Prime core, and the
  counters the host sends back to the device.\<close>

fun isFlushOp :: "dev_op \<Rightarrow> bool" where
  "isFlushOp (optixLaunch SPAWN_SHADOW n h) = True"
| "isFlushOp (rtpQueryAny n) = True"
| "isFlushOp (finalizeConnections n) = True"
| "isFlushOp (countersCopyToDevice c) = True"
| "isFlushOp op = False"

definition flush :: "dev_op list \<Rightarrow> dev_op list" where
  "flush ops = filter isFlushOp ops"

definition iterations :: "dev_op list \<Rightarrow> nat" where
  "iterations ops = length (filter isShade ops)"

definition swaps :: "dev_op list \<Rightarrow> nat" where
  "swaps ops = length (filter isSwap ops)"

definition cleared :: "float4 list \<Rightarrow> bool" where
  "cleared acc = list_all (\<lambda>x. x = zero4) acc"

text \<open>The queues the shading passes of a log read and write, pass by pass.\<close>

fun queues :: "dev_op list \<Rightarrow> (nat \<times> nat) list" where
  "queues [] = []"
| "queues (shadePrime pathCount inB outB R0 pass pathLength view # ops) = (inB, outB) # queues ops"
| "queues (op # ops) = queues ops"

section \<open>A small scene on a small screen\<close>

text \<open>Concrete values on which the theorems below are instantiated: a core as it is after
  \<^verbatim>\<open>Init\<close>, an environment with \<^verbatim>\<open>MAXPATHLENGTH\<close> 3 and the device of the previous section,
  and three scenes (every path continues and emits one shadow ray; every path continues and
  emits two; every path ends at its first hit).\<close>

definition view0 :: ViewPyramid where
  "view0 = \<lparr>pos = (0, 0, 0), p1 = (0, 0, 0), p2 = (0, 0, 0), p3 = (0, 0, 0),
            aperture = 0, spreadAngle = 0, distortion = 0\<rparr>"

definition counters0 :: Counters where
  "counters0 = \<lparr>extensionRays = 0, shadowRays = 0, totalExtensionRays = 0,
                probedInstid = 0, probedTriid = 0, probedDist = 0\<rparr>"

definition stats0 :: CoreStats where
  "stats0 = \<lparr>cs_totalExtensionRays = 0, cs_totalShadowRays = 0, cs_totalRays = 0,
             primaryRayCount = 0, bounce1RayCount = 0, deepRayCount = 0,
             cs_probedInstid = 0, cs_probedTriid = 0, cs_probedDist = 0\<rparr>"

definition vars0 :: RenderVars where
  "vars0 = \<lparr>geometryEpsilon = 0x38D1B717, clampValue = 0x41200000,
            filterClampDirect = 0x40200000, filterClampIndirect = 0x41700000,
            filterEnabled = 1, TAAEnabled = 1\<rparr>"

definition gpu0 :: "scene \<Rightarrow> scene gpu" where
  "gpu0 sc = \<lparr>devCounters = counters0, accumulator = [], devMem = sc\<rparr>"

definition coreO7 :: "scene \<Rightarrow> scene RenderCoreO7" where
  "coreO7 sc =
     \<lparr>scrwidth = 0, scrheight = 0, scrspp = 1, maxPixels = 0, currentSPP = 0, samplesTaken = 0,
      firstConvergingFrame = False, camRNGseed = 0x12345678, vars = vars0,
      staged = [stageClampValue 0x41200000],
      coreStats = stats0, counterBuffer = counters0, probePos = (0, 0), renderTarget = None,
      buffers = [], gpu = gpu0 sc, trace = [],
      gpuHasSceneData = False, asyncRenderInProgress = False, frameCycle = 0, blueSlot = 0,
      j0 = 0, j1 = 0, prevj0 = 0, prevj1 = 0, prevView = view0, filterSwapped = False,
      threadStats = stats0, threadSeed = 0, doneEvent = False\<rparr>"

definition corePBRT :: "scene \<Rightarrow> scene RenderCorePBRT" where
  "corePBRT sc =
     \<lparr>scrwidth = 0, scrheight = 0, scrspp = 1, maxPixels = 0, currentSPP = 0, samplesTaken = 0,
      firstConvergingFrame = False, camRNGseed = 0x12345678, vars = vars0,
      staged = [stageClampValue 0x41200000],
      coreStats = stats0, counterBuffer = counters0, probePos = (0, 0), renderTarget = None,
      buffers = [], gpu = gpu0 sc, trace = [],
      inBuffer = 0, outBuffer = 1, instancesDirty = False\<rparr>"

definition xorshift :: "uint \<Rightarrow> uint \<times> uint" where
  "xorshift seed =
     (let a = seed XOR push_bit 13 seed; b = a XOR drop_bit 17 a; c = b XOR push_bit 5 b
      in (c, c))"

definition env3 :: "scene env" where
  "env3 = \<lparr>MAXPATHLENGTH = 3, kernel = kernel_spec, RandomUInt = xorshift,
           uninit = (\<lambda>i. (1, 1, 1, 1)), uninitCounters = counters0, keyF4 = False\<rparr>"

definition sceneLit :: scene where
  "sceneLit pathLength i = (True, 1)"

definition sceneBright :: scene where
  "sceneBright pathLength i = (True, 2)"

definition sceneDark :: scene where
  "sceneDark pathLength i = (False, 0)"

definition inst0 :: CoreInstance where
  "inst0 = \<lparr>mesh = 0, transform = []\<rparr>"

definition screen :: "uint \<Rightarrow> uint \<Rightarrow> GLTexture" where
  "screen w h = \<lparr>texID = 1, width = w, height = h\<rparr>"

text \<open>The two cores after \<^verbatim>\<open>SetTarget\<close> with a screen of one pixel and one sample per pixel
  (the shadow-ray queue then holds two rays), and a scene whose paths end at their first hit
  and emit two shadow rays.\<close>

definition litO7 :: "scene \<Rightarrow> scene RenderCoreO7" where
  "litO7 sc = SetTarget_O7 env3 (screen 1 1) 1 (coreO7 sc)"

definition litPBRT :: "scene \<Rightarrow> scene RenderCorePBRT" where
  "litPBRT sc = SetTarget_PBRT env3 (screen 1 1) 1 (corePBRT sc)"



definition sceneGlow :: scene where
  "sceneGlow pathLength i = (False, 2)"

text \<open>The roles (input queue, output queue) of a pair of queues after \<open>k\<close> exchanges.\<close>

definition roles :: "nat \<times> nat \<Rightarrow> nat \<Rightarrow> nat \<times> nat" where
  "roles q k = (if even k then q else (snd q, fst q))"

text \<open>The path counts the shading passes of a log were launched with, pass by pass.\<close>

fun pathCounts :: "dev_op list \<Rightarrow> uint list" where
  "pathCounts [] = []"
| "pathCounts (shade pathCount R0 pass pathLength view # ops) = pathCount # pathCounts ops"
| "pathCounts (shadePrime pathCount inB outB R0 pass pathLength view # ops) = pathCount # pathCounts ops"
| "pathCounts (op # ops) = pathCounts ops"

text \<open>The states of the OptiX Prime core's \<^verbatim>\<open>Render\<close> when the restart has been handled and
  when the loop is entered.\<close>

definition restart_PBRT ::
  "'m env \<Rightarrow> Convergence \<Rightarrow> ('m, 'x) RenderCorePBRT_scheme \<Rightarrow> ('m, 'x) RenderCorePBRT_scheme" where
  "restart_PBRT E converge s =
     clearFlag converge
       (if restartFlag converge s
        then (clearAccumulator (UpdateToplevel_PBRT E s))
               \<lparr>samplesTaken := 0, firstConvergingFrame := True, camRNGseed := 0x12345678\<rparr>
        else UpdateToplevel_PBRT E s)"

definition loopStart_PBRT ::
  "'m env \<Rightarrow> ViewPyramid \<Rightarrow> ('m, 'x) RenderCorePBRT_scheme \<Rightarrow> ('m, 'x) RenderCorePBRT_scheme" where
  "loopStart_PBRT E view s =
     primaryRays_PBRT E view (s\<lparr>coreStats := (coreStats s)\<lparr>cs_totalExtensionRays := 0\<rparr>\<rparr>)"

text \<open>A list of path counts in which no entry exceeds the one before it.\<close>

fun nonincreasing :: "uint list \<Rightarrow> bool" where
  "nonincreasing (a # b # xs) = (unat b \<le> unat a \<and> nonincreasing (b # xs))"
| "nonincreasing xs = True"

section \<open>Properties\<close>

subsection \<open>Sample values\<close>

lemma vars_coreO7: "vars (coreO7 sc) = vars0"
  by (simp add: coreO7_def)

lemma vars_corePBRT: "vars (corePBRT sc) = vars0"
  by (simp add: corePBRT_def)

subsection \<open>Setting\<close>

text \<open>
  C10. A call \<^verbatim>\<open>Setting( name, value )\<close> whose name is none of the names the core recognises
  (six in RenderCore_Optix7Filter, two in RenderCore_OptixPrime_PBRT) returns the core as it
  was: every render variable keeps its value and nothing is staged for the device. The same
  holds for \<^verbatim>\<open>Setting( "epsilon", v )\<close> and \<^verbatim>\<open>Setting( "clampValue", v )\<close> when \<open>v\<close> equals the
  stored value (equality of floats as the source tests it, \<^verbatim>\<open>!=\<close> being false).
\<close>

theorem Setting_frame:
  "(name \<notin> {''epsilon'', ''clampValue'', ''clampDirect'', ''clampIndirect'', ''filter'', ''TAA''}
      \<longrightarrow> Setting_O7 name v s = s)
   \<and> (name \<notin> {''epsilon'', ''clampValue''} \<longrightarrow> Setting_PBRT name v t = t)
   \<and> (float_eq (geometryEpsilon (vars s)) v \<longrightarrow> Setting_O7 ''epsilon'' v s = s)
   \<and> (float_eq (clampValue (vars s)) v \<longrightarrow> Setting_O7 ''clampValue'' v s = s)
   \<and> (float_eq (geometryEpsilon (vars t)) v \<longrightarrow> Setting_PBRT ''epsilon'' v t = t)
   \<and> (float_eq (clampValue (vars t)) v \<longrightarrow> Setting_PBRT ''clampValue'' v t = t)"
  by (simp add: Setting_O7_def Setting_PBRT_def float_ne_def)

theorem Setting_frame_witness:
  "''gamma'' \<notin> {''epsilon'', ''clampValue'', ''clampDirect'', ''clampIndirect'', ''filter'', ''TAA''}
   \<and> Setting_O7 ''gamma'' 0x3F800000 (coreO7 sceneDark) = coreO7 sceneDark
   \<and> Setting_PBRT ''filter'' 0x3F800000 (corePBRT sceneDark) = corePBRT sceneDark
   \<and> float_eq (geometryEpsilon (vars (coreO7 sceneDark))) 0x38D1B717
   \<and> Setting_O7 ''epsilon'' 0x38D1B717 (coreO7 sceneDark) = coreO7 sceneDark
   \<and> float_eq (clampValue (vars (corePBRT sceneDark))) 0x41200000
   \<and> Setting_PBRT ''clampValue'' 0x41200000 (corePBRT sceneDark) = corePBRT sceneDark"
  using Setting_frame [of "''gamma''" "0x3F800000" "coreO7 sceneDark" "corePBRT sceneDark"]
    Setting_frame [of "''filter''" "0x3F800000" "coreO7 sceneDark" "corePBRT sceneDark"]
    Setting_frame [of "''x''" "0x38D1B717" "coreO7 sceneDark" "corePBRT sceneDark"]
    Setting_frame [of "''x''" "0x41200000" "coreO7 sceneDark" "corePBRT sceneDark"]
  by (simp add: vars_coreO7 vars_corePBRT vars0_def float_eq_def isnan_def)

subsection \<open>WaitForRender\<close>

text \<open>
  C9. When no asynchronous render is in progress, \<^verbatim>\<open>WaitForRender\<close> returns (it does not
  wait for the worker's event) and the core is what it was: the statistics, the random seed,
  the render target, the sample count and the device are unchanged, and the log shows that no
  finalize pass was issued.
\<close>

theorem WaitForRender_idle:
  "\<not> asyncRenderInProgress s \<Longrightarrow> WaitForRender E s = Some s"
  by (simp add: WaitForRender_def)

theorem WaitForRender_idle_witness:
  "\<not> asyncRenderInProgress (coreO7 sceneDark)
   \<and> WaitForRender env3 (coreO7 sceneDark) = Some (coreO7 sceneDark)"
  using WaitForRender_idle [of "coreO7 sceneDark" env3]
  by (simp add: coreO7_def)

subsection \<open>SetInstance\<close>

lemma size_t_of_int_nonneg: "0 \<le> sint i \<Longrightarrow> size_t_of_int i = nat (sint i)"
proof -
  assume h: "0 \<le> sint i"
  have "sint i < 2 ^ 31" using sint_lt [of i] by simp
  then have "sint i < 2 ^ 64" by simp
  with h show ?thesis by (simp add: size_t_of_int_def)
qed

text \<open>
  C8, as amended. For an instance index that is not negative: \<^verbatim>\<open>SetInstance( i, -1, m )\<close>
  truncates the instance list to its first \<open>i\<close> entries, so the length becomes the minimum of
  the old length and \<open>i\<close>, the entries kept are the old ones, and no mesh or transform is
  written. With a mesh index other than -1, the call appends an instance carrying the mesh
  and the transform when \<open>i\<close> is the current length (in RenderCore_Optix7Filter the mesh index
  must be that of an existing mesh, whose handle the new instance takes), and overwrites mesh
  and transform of slot \<open>i\<close> in place when \<open>i\<close> is below the length. Both cores.
\<close>

theorem SetInstance_cases:
  "0 \<le> sint instanceIdx \<longrightarrow>
     SetInstance_PBRT fresh instanceIdx (-1) matrix instances
       = Inr (take (nat (sint instanceIdx)) instances)
   \<and> SetInstance_O7 fresh7 meshes instanceIdx (-1) matrix instances7
       = Inr (take (nat (sint instanceIdx)) instances7)
   \<and> length (take (nat (sint instanceIdx)) instances)
       = min (length instances) (nat (sint instanceIdx))
   \<and> (\<forall>i < min (length instances) (nat (sint instanceIdx)).
         take (nat (sint instanceIdx)) instances ! i = instances ! i)
   \<and> (meshIdx \<noteq> -1 \<and> nat (sint instanceIdx) = length instances \<longrightarrow>
         SetInstance_PBRT fresh instanceIdx meshIdx matrix instances
           = Inr (instances @ [fresh\<lparr>mesh := meshIdx, transform := matrix\<rparr>]))
   \<and> (meshIdx \<noteq> -1 \<and> nat (sint instanceIdx) < length instances \<longrightarrow>
         SetInstance_PBRT fresh instanceIdx meshIdx matrix instances
           = Inr (instances[nat (sint instanceIdx) :=
                   (instances ! nat (sint instanceIdx))\<lparr>mesh := meshIdx, transform := matrix\<rparr>]))
   \<and> (meshIdx \<noteq> -1 \<and> nat (sint instanceIdx) = length instances7
        \<and> size_t_of_int meshIdx < length meshes \<longrightarrow>
         SetInstance_O7 fresh7 meshes instanceIdx meshIdx matrix instances7
           = Inr (instances7 @
               [(newInstance_O7 fresh7 instanceIdx matrix (gasHandle (meshes ! size_t_of_int meshIdx)))
                  \<lparr>mesh := meshIdx\<rparr>]))
   \<and> (meshIdx \<noteq> -1 \<and> nat (sint instanceIdx) < length instances7 \<longrightarrow>
         SetInstance_O7 fresh7 meshes instanceIdx meshIdx matrix instances7
           = Inr (instances7[nat (sint instanceIdx) :=
                   (instances7 ! nat (sint instanceIdx))
                     \<lparr>mesh := meshIdx, transform := take 12 matrix,
                      instance_O7 := (instance_O7 (instances7 ! nat (sint instanceIdx)))
                                       \<lparr>instTransform := take 12 matrix\<rparr>\<rparr>]))"
proof (intro impI)
  assume h: "0 \<le> sint instanceIdx"
  note n = size_t_of_int_nonneg [OF h]
  show "SetInstance_PBRT fresh instanceIdx (-1) matrix instances
       = Inr (take (nat (sint instanceIdx)) instances)
   \<and> SetInstance_O7 fresh7 meshes instanceIdx (-1) matrix instances7
       = Inr (take (nat (sint instanceIdx)) instances7)
   \<and> length (take (nat (sint instanceIdx)) instances)
       = min (length instances) (nat (sint instanceIdx))
   \<and> (\<forall>i < min (length instances) (nat (sint instanceIdx)).
         take (nat (sint instanceIdx)) instances ! i = instances ! i)
   \<and> (meshIdx \<noteq> -1 \<and> nat (sint instanceIdx) = length instances \<longrightarrow>
         SetInstance_PBRT fresh instanceIdx meshIdx matrix instances
           = Inr (instances @ [fresh\<lparr>mesh := meshIdx, transform := matrix\<rparr>]))
   \<and> (meshIdx \<noteq> -1 \<and> nat (sint instanceIdx) < length instances \<longrightarrow>
         SetInstance_PBRT fresh instanceIdx meshIdx matrix instances
           = Inr (instances[nat (sint instanceIdx) :=
                   (instances ! nat (sint instanceIdx))\<lparr>mesh := meshIdx, transform := matrix\<rparr>]))
   \<and> (meshIdx \<noteq> -1 \<and> nat (sint instanceIdx) = length instances7
        \<and> size_t_of_int meshIdx < length meshes \<longrightarrow>
         SetInstance_O7 fresh7 meshes instanceIdx meshIdx matrix instances7
           = Inr (instances7 @
               [(newInstance_O7 fresh7 instanceIdx matrix (gasHandle (meshes ! size_t_of_int meshIdx)))
                  \<lparr>mesh := meshIdx\<rparr>]))
   \<and> (meshIdx \<noteq> -1 \<and> nat (sint instanceIdx) < length instances7 \<longrightarrow>
         SetInstance_O7 fresh7 meshes instanceIdx meshIdx matrix instances7
           = Inr (instances7[nat (sint instanceIdx) :=
                   (instances7 ! nat (sint instanceIdx))
                     \<lparr>mesh := meshIdx, transform := take 12 matrix,
                      instance_O7 := (instance_O7 (instances7 ! nat (sint instanceIdx)))
                                       \<lparr>instTransform := take 12 matrix\<rparr>\<rparr>]))"
    by (simp add: SetInstance_PBRT_def SetInstance_O7_def at_index_def n newInstance_O7_def
        min_def not_less)
qed

text \<open>
  The claim as stated fails for a negative index and for an index beyond the length:
  \<^verbatim>\<open>SetInstance( -2, -1, m )\<close> on two instances leaves both (the comparison with \<^verbatim>\<open>size()\<close>
  is unsigned), so the length is not \<open>min(2, -2)\<close>; \<^verbatim>\<open>SetInstance( 5, 0, m )\<close> on an empty
  list appends one instance and then writes to slot 5, outside the vector.
\<close>

lemma size_t_minus2: "size_t_of_int (-2) = 2 ^ 64 - 2"
  by (simp add: size_t_of_int_def)

theorem SetInstance_counterexample:
  "SetInstance_PBRT inst0 (-2) (-1) [] [inst0, inst0] = Inr [inst0, inst0]
   \<and> int (length [inst0, inst0]) \<noteq> min (int (length [inst0, inst0])) (sint (-2 :: cint))
   \<and> SetInstance_PBRT inst0 5 0 [] [] = Inl OutOfRange"
  by (simp add: SetInstance_PBRT_def size_t_minus2 at_index_def size_t_of_int_def)

theorem SetInstance_cases_witness:
  "0 \<le> sint (1 :: cint)
   \<and> SetInstance_PBRT inst0 1 (-1) [] [inst0, inst0] = Inr [inst0]
   \<and> SetInstance_PBRT inst0 1 7 [3, 4] [inst0] = Inr [inst0, \<lparr>mesh = 7, transform = [3, 4]\<rparr>]
   \<and> SetInstance_PBRT inst0 1 7 [3, 4] [inst0, inst0]
        = Inr [inst0, \<lparr>mesh = 7, transform = [3, 4]\<rparr>]"
  using SetInstance_cases [of 1 inst0 "[]" "[inst0, inst0]" 0 "[]" "[]" "-1"]
    SetInstance_cases [of 1 inst0 "[3, 4]" "[inst0]" 0 "[]" "[]" 7]
    SetInstance_cases [of 1 inst0 "[3, 4]" "[inst0, inst0]" 0 "[]" "[]" 7]
  by (simp add: inst0_def)

subsection \<open>SetTarget\<close>





lemma cleared_map: "cleared (map (\<lambda>_. zero4) xs)"
  by (simp add: cleared_def list_all_iff)

lemma clearAccumulator_cleared: "cleared (accumulator (gpu (clearAccumulator s)))"
  by (simp add: clearAccumulator_def cleared_map)

lemma viewport_simps:
  "scrwidth (viewport target spp s) = width target" "scrheight (viewport target spp s) = height target"
  "scrspp (viewport target spp s) = spp" "maxPixels (viewport target spp s) = maxPixels s"
  "currentSPP (viewport target spp s) = currentSPP s" "trace (viewport target spp s) = trace s"
  "buffers (viewport target spp s) = buffers s"
  by (simp_all add: viewport_def)

lemma reserve_simps:
  "trace (reserve_O7 spp s) = trace s" "trace (reserve_PBRT spp s) = trace s"
  "currentSPP (reserve_O7 spp s) = spp" "currentSPP (reserve_PBRT spp s) = spp"
  "scrspp (reserve_O7 spp s) = scrspp s" "scrspp (reserve_PBRT spp s) = scrspp s"
  "maxPixels (reserve_O7 spp s)
     = scrwidth s * scrheight s + signed_drop_bit 4 (scrwidth s * scrheight s)"
  "maxPixels (reserve_PBRT spp s) = scrwidth s * scrheight s + int_div (scrwidth s * scrheight s) 16"
  by (simp_all add: reserve_O7_def reserve_PBRT_def Let_def)



lemma SetTarget_O7_fields:
  "maxPixels (SetTarget_O7 E target spp s) =
     (if reallocate spp (viewport target spp s)
      then maxPixels (reserve_O7 spp (viewport target spp s)) else maxPixels s)"
  "currentSPP (SetTarget_O7 E target spp s) =
     (if reallocate spp (viewport target spp s) then spp else currentSPP s)"
  "buffers (SetTarget_O7 E target spp s) =
     (if reallocate spp (viewport target spp s)
      then allocate_O7 (maxPixels (reserve_O7 spp (viewport target spp s))) spp else buffers s)"
  "accumulator (gpu (SetTarget_O7 E target spp s)) =
     (if reallocate spp (viewport target spp s)
      then replicate (elements (maxPixels (reserve_O7 spp (viewport target spp s)) * 2)) zero4
      else map (\<lambda>_. zero4) (accumulator (gpu s)))"
  "samplesTaken (SetTarget_O7 E target spp s) = 0"
  by (simp_all add: SetTarget_O7_def Let_def newCoreBuffers_def stage_def clearAccumulator_def
      viewport_simps reserve_simps map_replicate_const)
     (simp_all add: viewport_def)

lemma SetTarget_PBRT_fields:
  "maxPixels (SetTarget_PBRT E target spp s) =
     (if reallocate spp (viewport target spp s)
      then maxPixels (reserve_PBRT spp (viewport target spp s)) else maxPixels s)"
  "currentSPP (SetTarget_PBRT E target spp s) =
     (if reallocate spp (viewport target spp s) then spp else currentSPP s)"
  "buffers (SetTarget_PBRT E target spp s) =
     (if reallocate spp (viewport target spp s)
      then allocate_PBRT (maxPixels (reserve_PBRT spp (viewport target spp s))) spp else buffers s)"
  "accumulator (gpu (SetTarget_PBRT E target spp s)) =
     (if reallocate spp (viewport target spp s)
      then replicate (elements (maxPixels (reserve_PBRT spp (viewport target spp s)))) zero4
      else map (\<lambda>_. zero4) (accumulator (gpu s)))"
  "samplesTaken (SetTarget_PBRT E target spp s) = 0"
  by (simp_all add: SetTarget_PBRT_def Let_def newCoreBuffers_def clearAccumulator_def
      viewport_simps reserve_simps map_replicate_const)
     (simp_all add: viewport_def)

text \<open>After \<^verbatim>\<open>SetTarget\<close> the core has its buffers, if it reallocated or had them before.\<close>

lemma SetTarget_allocated:
  "reallocate spp (viewport target spp s) \<or> allocated_O7 s
     \<Longrightarrow> allocated_O7 (SetTarget_O7 E target spp s)"
  "reallocate spp (viewport target spp t) \<or> allocated_PBRT t
     \<Longrightarrow> allocated_PBRT (SetTarget_PBRT E target spp t)"
  by (auto simp add: allocated_O7_def allocated_PBRT_def SetTarget_O7_fields SetTarget_PBRT_fields
      bufSize_def allocate_O7_def allocate_PBRT_def)










lemma screen_simps: "width (screen w h) = w" "height (screen w h) = h"
  by (simp_all add: screen_def)

lemma core_simps:
  "maxPixels (coreO7 sc) = 0" "currentSPP (coreO7 sc) = 0"
  "maxPixels (corePBRT sc) = 0" "currentSPP (corePBRT sc) = 0"
  by (simp_all add: coreO7_def corePBRT_def)






subsection \<open>More sample values\<close>

lemma upt_2: "[0..<2] = [0, Suc 0]"
  by (simp add: upt_rec numeral_2_eq_2)

lemma litO7_eq:
  "litO7 sc =
     \<lparr>scrwidth = 1, scrheight = 1, scrspp = 1, maxPixels = 1, currentSPP = 1, samplesTaken = 0,
      firstConvergingFrame = False, camRNGseed = 0x12345678, vars = vars0,
      staged = [stageClampValue 0x41200000, stageDebugData],
      coreStats = stats0, counterBuffer = counters0, probePos = (0, 0),
      renderTarget = Some (screen 1 1),
      buffers = allocate_O7 1 1,
      gpu = \<lparr>devCounters = counters0, accumulator = [zero4, zero4], devMem = sc\<rparr>,
      trace = [newBuffers (allocate_O7 1 1), accumulatorClear],
      gpuHasSceneData = False, asyncRenderInProgress = False, frameCycle = 0, blueSlot = 0,
      j0 = 0, j1 = 0, prevj0 = 0, prevj1 = 0, prevView = view0, filterSwapped = False,
      threadStats = stats0, threadSeed = 0, doneEvent = False\<rparr>"
  by (simp add: litO7_def SetTarget_O7_def coreO7_def screen_def Let_def reallocate_def
      viewport_def reserve_O7_def newCoreBuffers_def stage_def clearAccumulator_def gpu0_def
      elements_def upt_2)

lemma litPBRT_eq:
  "litPBRT sc =
     \<lparr>scrwidth = 1, scrheight = 1, scrspp = 1, maxPixels = 1, currentSPP = 1, samplesTaken = 0,
      firstConvergingFrame = False, camRNGseed = 0x12345678, vars = vars0,
      staged = [stageClampValue 0x41200000],
      coreStats = stats0, counterBuffer = counters0, probePos = (0, 0),
      renderTarget = Some (screen 1 1),
      buffers = allocate_PBRT 1 1,
      gpu = \<lparr>devCounters = counters0, accumulator = [zero4], devMem = sc\<rparr>,
      trace = [newBuffers (allocate_PBRT 1 1), accumulatorClear],
      inBuffer = 0, outBuffer = 1, instancesDirty = False\<rparr>"
  by (simp add: litPBRT_def SetTarget_PBRT_def corePBRT_def screen_def Let_def reallocate_def
      viewport_def reserve_PBRT_def newCoreBuffers_def clearAccumulator_def gpu0_def
      elements_def int_div_def)

lemma lit_simps:
  "bufSize (litO7 sc) ''connectionBuffer'' = 6"
  "bufSize (litPBRT sc) ''shadowRayBuffer'' = 2"
  "devCounters (gpu (litO7 sc)) = counters0"
  "devCounters (gpu (litPBRT sc)) = counters0"
  "devMem (gpu (litO7 sc)) = sc"
  "devMem (gpu (litPBRT sc)) = sc"
  by (simp_all add: litO7_eq litPBRT_eq bufSize_def allocate_O7_def allocate_PBRT_def
      elements_def)

lemma env3_simps:
  "MAXPATHLENGTH env3 = 3" "kernel env3 = kernel_spec" "RandomUInt env3 = xorshift"
  "uninitCounters env3 = counters0" "keyF4 env3 = False"
  by (simp_all add: env3_def)

lemma shadePass_one:
  "shadePass outcome 1 c = shadePath (outcome 0) c"
  by (simp add: shadePass_def)

lemma shadePass_zero:
  "shadePass outcome 0 c = c"
  by (simp add: shadePass_def)

lemma scene_simps:
  "sceneLit pathLength i = (True, 1)" "sceneBright pathLength i = (True, 2)"
  "sceneDark pathLength i = (False, 0)" "sceneGlow pathLength i = (False, 2)"
  by (simp_all add: sceneLit_def sceneBright_def sceneDark_def sceneGlow_def)

lemma counters0_simps:
  "extensionRays counters0 = 0" "shadowRays counters0 = 0" "totalExtensionRays counters0 = 0"
  by (simp_all add: counters0_def)

subsection \<open>The overflow flush\<close>

lemma issued_append: "trace s1 = trace s @ ops \<Longrightarrow> issued s s1 = ops"
  by (simp add: issued_def)

lemma flushed_simps:
  "flushed [] = False"
  "flushed (op # ops) = (isShadowResolve op \<or> flushed ops)"
  "flushed (xs @ ys) = (flushed xs \<or> flushed ys)"
  by (auto simp: flushed_def list_ex_iff)

lemma trace_launch: "trace (launch E op s) = trace s @ [op]"
  by (simp add: launch_def)

lemma trace_CopyToHost: "trace (CopyToHost s) = trace s @ [countersCopyToHost]"
  by (simp add: CopyToHost_def)

lemma trace_extend_O7:
  "trace (extend_O7 E pathLength pathCount s) = trace s @
     (if pathLength = 1
      then [InitCountersForExtend pathCount,
            optixLaunch SPAWN_PRIMARY (scrwidth s) (scrheight s * scrspp s)]
      else [InitCountersSubsequent, optixLaunch SPAWN_SECONDARY pathCount 1])"
  by (simp add: extend_O7_def launch_def)

lemma trace_shade_O7:
  "trace (shade_O7 E view pathLength pathCount s) = trace s @
     [shade pathCount (fst (RandomUInt E (camRNGseed s)) + of_nat pathLength * 91771)
        (samplesTaken s) pathLength view]"
  by (simp add: shade_O7_def launch_def split: prod.split)

lemma buffers_extend_O7: "buffers (extend_O7 E pathLength pathCount s) = buffers s"
  by (simp add: extend_O7_def launch_def)

lemma buffers_shade_O7: "buffers (shade_O7 E view pathLength pathCount s) = buffers s"
  by (simp add: shade_O7_def launch_def split: prod.split)

lemma bufSize_cong: "buffers s1 = buffers s \<Longrightarrow> bufSize s1 name = bufSize s name"
  by (simp add: bufSize_def)

lemma overflow_O7_trace:
  "trace (overflow_O7 E counters pathCount s) = trace s @
     (if pathCount + shadowRays counters \<ge> of_nat (bufSize s ''connectionBuffer'' div 3)
         \<and> shadowRays counters > 0
      then [optixLaunch SPAWN_SHADOW (shadowRays counters) 1,
            countersCopyToDevice ((counterBuffer s)\<lparr>shadowRays := 0\<rparr>)]
      else [])"
  by (simp add: overflow_O7_def Let_def launch_def CopyToDevice_def)

lemma overflow_O7_reset:
  "pathCount + shadowRays counters \<ge> of_nat (bufSize s ''connectionBuffer'' div 3)
     \<Longrightarrow> shadowRays counters > 0
     \<Longrightarrow> shadowRays (counterBuffer (overflow_O7 E counters pathCount s)) = 0
       \<and> shadowRays (devCounters (gpu (overflow_O7 E counters pathCount s))) = 0"
  by (simp add: overflow_O7_def Let_def launch_def CopyToDevice_def)

lemma overflow_PBRT_trace:
  "trace (overflow_PBRT E pathCount s) = trace s @
     (if shadowRays (counterBuffer s) + pathCount \<ge> of_nat (bufSize s ''shadowRayBuffer'')
      then [rtpQueryAny (shadowRays (counterBuffer s)),
            finalizeConnections (shadowRays (counterBuffer s)),
            countersCopyToDevice ((counterBuffer s)\<lparr>shadowRays := 0\<rparr>)]
      else [])"
  by (simp add: overflow_PBRT_def Let_def launch_def CopyToDevice_def)

lemma overflow_PBRT_reset:
  "shadowRays (counterBuffer s) + pathCount \<ge> of_nat (bufSize s ''shadowRayBuffer'')
     \<Longrightarrow> shadowRays (counterBuffer (overflow_PBRT E pathCount s)) = 0
       \<and> shadowRays (devCounters (gpu (overflow_PBRT E pathCount s))) = 0"
  by (simp add: overflow_PBRT_def Let_def launch_def CopyToDevice_def)

lemma bounce_O7_issued:
  "issued s (snd (snd (snd (bounce_O7 E view pathLength pathCount s)))) =
     (let s1 = shade_O7 E view pathLength pathCount (extend_O7 E pathLength pathCount s);
          c = devCounters (gpu s1)
      in drop (length (trace s)) (trace s1) @ [countersCopyToHost] @
         (if extensionRays c \<noteq> 0
             \<and> extensionRays c + shadowRays c \<ge> of_nat (bufSize s ''connectionBuffer'' div 3)
             \<and> shadowRays c > 0
          then [optixLaunch SPAWN_SHADOW (shadowRays c) 1, countersCopyToDevice (c\<lparr>shadowRays := 0\<rparr>)]
          else []))"
  by (simp add: issued_def bounce_O7_def Let_def overflow_O7_trace trace_CopyToHost
      trace_shade_O7 trace_extend_O7 CopyToHost_def
      bufSize_cong [OF buffers_shade_O7] bufSize_cong [OF buffers_extend_O7] bufSize_def
      buffers_shade_O7 buffers_extend_O7)


lemma drop_trace_shade_O7:
  "drop (length (trace s))
     (trace (shade_O7 E view pathLength pathCount (extend_O7 E pathLength pathCount s))) =
     (if pathLength = 1
      then [InitCountersForExtend pathCount,
            optixLaunch SPAWN_PRIMARY (scrwidth s) (scrheight s * scrspp s)]
      else [InitCountersSubsequent, optixLaunch SPAWN_SECONDARY pathCount 1]) @
     [shade pathCount
        (fst (RandomUInt E (camRNGseed (extend_O7 E pathLength pathCount s))) + of_nat pathLength * 91771)
        (samplesTaken (extend_O7 E pathLength pathCount s)) pathLength view]"
  by (simp add: trace_shade_O7 trace_extend_O7)

lemma bounce_O7_parts:
  "fst (snd (bounce_O7 E view pathLength pathCount s))
     = extensionRays (fst (snd (snd (bounce_O7 E view pathLength pathCount s))))"
  "fst (snd (snd (bounce_O7 E view pathLength pathCount s)))
     = devCounters (gpu (shade_O7 E view pathLength pathCount (extend_O7 E pathLength pathCount s)))"
  "fst (bounce_O7 E view pathLength pathCount s)
     = (extensionRays (devCounters (gpu (shade_O7 E view pathLength pathCount
          (extend_O7 E pathLength pathCount s)))) \<noteq> 0)"
  by (simp_all add: bounce_O7_def Let_def CopyToHost_def)

lemma bounce_O7_flushed:
  "flushed (issued s (snd (snd (snd (bounce_O7 E view pathLength pathCount s))))) \<longleftrightarrow>
     (let c = fst (snd (snd (bounce_O7 E view pathLength pathCount s)))
      in extensionRays c \<noteq> 0
         \<and> extensionRays c + shadowRays c \<ge> of_nat (bufSize s ''connectionBuffer'' div 3)
         \<and> shadowRays c > 0)"
  by (simp add: bounce_O7_issued bounce_O7_parts Let_def drop_trace_shade_O7 flushed_simps)

lemma bounce_O7_reset:
  "flushed (issued s (snd (snd (snd (bounce_O7 E view pathLength pathCount s))))) \<Longrightarrow>
     shadowRays (counterBuffer (snd (snd (snd (bounce_O7 E view pathLength pathCount s))))) = 0
     \<and> shadowRays (devCounters (gpu (snd (snd (snd (bounce_O7 E view pathLength pathCount s)))))) = 0"
  unfolding bounce_O7_flushed
  by (simp add: bounce_O7_parts Let_def)
     (simp add: bounce_O7_def Let_def overflow_O7_reset CopyToHost_def
        bufSize_def buffers_shade_O7 buffers_extend_O7 overflow_O7_def launch_def CopyToDevice_def)


lemma trace_extendShade_PBRT:
  "trace (extendShade_PBRT E view pathLength pathCount s) = trace s @
     [rtpQueryClosest (inBuffer s) pathCount,
      shadePrime pathCount (inBuffer s) (outBuffer s)
        (samplesTaken s * 7907 + of_nat pathLength * 91771) (samplesTaken s) pathLength view]"
  by (simp add: extendShade_PBRT_def Let_def launch_def)

lemma buffers_extendShade_PBRT: "buffers (extendShade_PBRT E view pathLength pathCount s) = buffers s"
  by (simp add: extendShade_PBRT_def Let_def launch_def)

lemma trace_swapBuffers: "trace (swapBuffers s) = trace s @ [swapQueues]"
  by (simp add: swapBuffers_def)

lemma bounce_PBRT_trace:
  "trace (snd (snd (bounce_PBRT E view pathLength pathCount s))) =
     (let s1 = extendShade_PBRT E view pathLength pathCount s;
          c = devCounters (gpu s1)
      in trace s1 @
         (if pathLength = MAXPATHLENGTH E then []
          else [countersCopyToHost, swapQueues] @
               (if shadowRays c + extensionRays c \<ge> of_nat (bufSize s ''shadowRayBuffer'')
                then [rtpQueryAny (shadowRays c), finalizeConnections (shadowRays c),
                      countersCopyToDevice (c\<lparr>shadowRays := 0\<rparr>)]
                else []) @
               [InitCountersSubsequent]))"
  by (simp add: bounce_PBRT_def Let_def trace_launch overflow_PBRT_trace trace_swapBuffers
      trace_CopyToHost)
     (simp add: swapBuffers_def CopyToHost_def bufSize_def buffers_extendShade_PBRT)

lemma bounce_PBRT_flushed:
  "flushed (issued s (snd (snd (bounce_PBRT E view pathLength pathCount s)))) \<longleftrightarrow>
     (let c = devCounters (gpu (extendShade_PBRT E view pathLength pathCount s))
      in pathLength \<noteq> MAXPATHLENGTH E
         \<and> shadowRays c + extensionRays c \<ge> of_nat (bufSize s ''shadowRayBuffer''))"
  by (simp add: issued_def bounce_PBRT_trace Let_def trace_extendShade_PBRT flushed_simps)

lemma bounce_PBRT_reset:
  "flushed (issued s (snd (snd (bounce_PBRT E view pathLength pathCount s)))) \<Longrightarrow>
     shadowRays (counterBuffer (snd (snd (bounce_PBRT E view pathLength pathCount s)))) = 0"
  unfolding bounce_PBRT_flushed
  by (simp add: Let_def bounce_PBRT_def launch_def overflow_PBRT_def CopyToDevice_def
      swapBuffers_def CopyToHost_def bufSize_def buffers_extendShade_PBRT)

lemma flush_simps:
  "flush [] = []"
  "flush (op # ops) = (if isFlushOp op then op # flush ops else flush ops)"
  "flush (xs @ ys) = flush xs @ flush ys"
  by (simp_all add: flush_def)

lemma bounce_O7_flush:
  "flush (issued s (snd (snd (snd (bounce_O7 E view pathLength pathCount s))))) =
     (let c = fst (snd (snd (bounce_O7 E view pathLength pathCount s)))
      in if extensionRays c \<noteq> 0
            \<and> extensionRays c + shadowRays c \<ge> of_nat (bufSize s ''connectionBuffer'' div 3)
            \<and> shadowRays c > 0
         then [optixLaunch SPAWN_SHADOW (shadowRays c) 1, countersCopyToDevice (c\<lparr>shadowRays := 0\<rparr>)]
         else [])"
  by (simp add: bounce_O7_issued bounce_O7_parts Let_def drop_trace_shade_O7 flush_simps)

lemma bounce_PBRT_flush:
  "flush (issued s (snd (snd (bounce_PBRT E view pathLength pathCount s)))) =
     (let c = devCounters (gpu (extendShade_PBRT E view pathLength pathCount s))
      in if pathLength \<noteq> MAXPATHLENGTH E
            \<and> shadowRays c + extensionRays c \<ge> of_nat (bufSize s ''shadowRayBuffer'')
         then [rtpQueryAny (shadowRays c), finalizeConnections (shadowRays c),
               countersCopyToDevice (c\<lparr>shadowRays := 0\<rparr>)]
         else [])"
  by (simp add: issued_def bounce_PBRT_trace Let_def trace_extendShade_PBRT flush_simps)

text \<open>
  C1, as amended. In an iteration of the wavefront loop the pending shadow rays are flushed
  mid-loop exactly in these cases. RenderCore_Optix7Filter: the path count read back is not
  zero, the 32-bit sum of path count and shadow-ray count reaches the capacity (a third of the
  connection buffer's size), and the shadow-ray count is positive. RenderCore_OptixPrime_PBRT:
  the iteration is not the one of length \<^verbatim>\<open>MAXPATHLENGTH\<close>, which leaves the loop before it
  reads the counters, and the 32-bit sum of shadow-ray count and path count reaches the size of
  the shadow-ray buffer. The flush is what the log shows of it: an any-hit resolve of exactly
  as many rays as the shadow-ray counter read back after the shading pass says (in the OptiX
  Prime core followed by the processing of as many hits), and then the counters sent to the
  device with the shadow-ray counter set to zero and the other counters as read back; without
  a flush the log shows none of these operations. Right after a flush the shadow-ray counter
  of the counter buffer is zero, in the host copy and on the device.
\<close>

theorem overflow_flush:
  "(case bounce_O7 E view pathLength pathCount s of
      (continue, pathCount1, counters, s1) \<Rightarrow>
        (flushed (issued s s1) \<longleftrightarrow>
           pathCount1 \<noteq> 0
           \<and> pathCount1 + shadowRays counters \<ge> of_nat (bufSize s ''connectionBuffer'' div 3)
           \<and> shadowRays counters > 0)
        \<and> pathCount1 = extensionRays counters
        \<and> counters = devCounters (gpu (shade_O7 E view pathLength pathCount
                                          (extend_O7 E pathLength pathCount s)))
        \<and> flush (issued s s1) =
            (if flushed (issued s s1)
             then [optixLaunch SPAWN_SHADOW (shadowRays counters) 1,
                   countersCopyToDevice (counters\<lparr>shadowRays := 0\<rparr>)]
             else [])
        \<and> (flushed (issued s s1) \<longrightarrow>
             shadowRays (counterBuffer s1) = 0 \<and> shadowRays (devCounters (gpu s1)) = 0))
   \<and> (case bounce_PBRT E view pathLength pathCount t of
        (continue, pathCount1, t1) \<Rightarrow>
          (flushed (issued t t1) \<longleftrightarrow>
             pathLength \<noteq> MAXPATHLENGTH E
             \<and> shadowRays (devCounters (gpu (extendShade_PBRT E view pathLength pathCount t)))
                 + extensionRays (devCounters (gpu (extendShade_PBRT E view pathLength pathCount t)))
               \<ge> of_nat (bufSize t ''shadowRayBuffer''))
          \<and> flush (issued t t1) =
              (if flushed (issued t t1)
               then [rtpQueryAny (shadowRays (devCounters (gpu
                        (extendShade_PBRT E view pathLength pathCount t)))),
                     finalizeConnections (shadowRays (devCounters (gpu
                        (extendShade_PBRT E view pathLength pathCount t)))),
                     countersCopyToDevice ((devCounters (gpu
                        (extendShade_PBRT E view pathLength pathCount t)))\<lparr>shadowRays := 0\<rparr>)]
               else [])
          \<and> (flushed (issued t t1) \<longrightarrow> shadowRays (counterBuffer t1) = 0))
   \<and> (shadowRays (counterBuffer u) + pathCount \<ge> of_nat (bufSize u ''shadowRayBuffer'') \<longrightarrow>
        shadowRays (counterBuffer (overflow_PBRT E pathCount u)) = 0
        \<and> shadowRays (devCounters (gpu (overflow_PBRT E pathCount u))) = 0)"
proof (intro conjI)
  show "case bounce_O7 E view pathLength pathCount s of
      (continue, pathCount1, counters, s1) \<Rightarrow>
        (flushed (issued s s1) \<longleftrightarrow>
           pathCount1 \<noteq> 0
           \<and> pathCount1 + shadowRays counters \<ge> of_nat (bufSize s ''connectionBuffer'' div 3)
           \<and> shadowRays counters > 0)
        \<and> pathCount1 = extensionRays counters
        \<and> counters = devCounters (gpu (shade_O7 E view pathLength pathCount
                                          (extend_O7 E pathLength pathCount s)))
        \<and> flush (issued s s1) =
            (if flushed (issued s s1)
             then [optixLaunch SPAWN_SHADOW (shadowRays counters) 1,
                   countersCopyToDevice (counters\<lparr>shadowRays := 0\<rparr>)]
             else [])
        \<and> (flushed (issued s s1) \<longrightarrow>
             shadowRays (counterBuffer s1) = 0 \<and> shadowRays (devCounters (gpu s1)) = 0)"
    using bounce_O7_flushed [of s E view pathLength pathCount]
      bounce_O7_flush [of s E view pathLength pathCount]
      bounce_O7_reset [of s E view pathLength pathCount]
      bounce_O7_parts(1,2) [of E view pathLength pathCount s]
    by (simp add: split_beta Let_def)
  show "case bounce_PBRT E view pathLength pathCount t of
        (continue, pathCount1, t1) \<Rightarrow>
          (flushed (issued t t1) \<longleftrightarrow>
             pathLength \<noteq> MAXPATHLENGTH E
             \<and> shadowRays (devCounters (gpu (extendShade_PBRT E view pathLength pathCount t)))
                 + extensionRays (devCounters (gpu (extendShade_PBRT E view pathLength pathCount t)))
               \<ge> of_nat (bufSize t ''shadowRayBuffer''))
          \<and> flush (issued t t1) =
              (if flushed (issued t t1)
               then [rtpQueryAny (shadowRays (devCounters (gpu
                        (extendShade_PBRT E view pathLength pathCount t)))),
                     finalizeConnections (shadowRays (devCounters (gpu
                        (extendShade_PBRT E view pathLength pathCount t)))),
                     countersCopyToDevice ((devCounters (gpu
                        (extendShade_PBRT E view pathLength pathCount t)))\<lparr>shadowRays := 0\<rparr>)]
               else [])
          \<and> (flushed (issued t t1) \<longrightarrow> shadowRays (counterBuffer t1) = 0)"
    using bounce_PBRT_flushed [of t E view pathLength pathCount]
      bounce_PBRT_flush [of t E view pathLength pathCount]
      bounce_PBRT_reset [of t E view pathLength pathCount]
    by (simp add: split_beta Let_def)
  show "shadowRays (counterBuffer u) + pathCount \<ge> of_nat (bufSize u ''shadowRayBuffer'') \<longrightarrow>
        shadowRays (counterBuffer (overflow_PBRT E pathCount u)) = 0
        \<and> shadowRays (devCounters (gpu (overflow_PBRT E pathCount u))) = 0"
    using overflow_PBRT_reset [of u pathCount E] by simp
qed


subsection \<open>Paths never multiply\<close>

lemma fold_shadePath_extensionRays:
  "extensionRays (fold (\<lambda>i. shadePath (outcome i)) xs c)
     = extensionRays c + of_nat (length (filter (\<lambda>i. fst (outcome i)) xs))"
  by (induction xs arbitrary: c) (simp_all add: shadePath_def)

lemma fold_shadePath_shadowRays:
  "shadowRays (fold (\<lambda>i. shadePath (outcome i)) xs c)
     = shadowRays c + of_nat (sum_list (map (\<lambda>i. snd (outcome i)) xs))"
  by (induction xs arbitrary: c) (simp_all add: shadePath_def)

lemma shadePass_bound:
  "extensionRays c = 0 \<Longrightarrow> unat (extensionRays (shadePass outcome pathCount c)) \<le> unat pathCount"
proof -
  assume z: "extensionRays c = 0"
  let ?k = "length (filter (\<lambda>i. fst (outcome i)) [0..<unat pathCount])"
  have "unat (extensionRays (shadePass outcome pathCount c)) = unat (of_nat ?k :: uint)"
    by (simp add: shadePass_def fold_shadePath_extensionRays z)
  also have "\<dots> \<le> ?k"
    by (simp add: unat_of_nat)
  also have "?k \<le> length [0..<unat pathCount]"
    by (rule length_filter_le)
  finally show ?thesis by simp
qed

lemma spec_readback_O7:
  "kernel E = kernel_spec \<Longrightarrow>
   devCounters (gpu (shade_O7 E view pathLength pathCount (extend_O7 E pathLength pathCount s)))
     = shadePass (devMem (gpu s) pathLength) pathCount
         (if pathLength = 1
          then (devCounters (gpu s))\<lparr>extensionRays := 0, shadowRays := 0,
                                     totalExtensionRays := pathCount\<rparr>
          else (devCounters (gpu s))
                 \<lparr>totalExtensionRays := totalExtensionRays (devCounters (gpu s))
                                          + extensionRays (devCounters (gpu s)),
                  extensionRays := 0\<rparr>)"
  by (simp add: shade_O7_def extend_O7_def launch_def kernel_spec_def split: prod.split)

lemma spec_readback_PBRT:
  "kernel E = kernel_spec \<Longrightarrow>
   devCounters (gpu (extendShade_PBRT E view pathLength pathCount t))
     = shadePass (devMem (gpu t) pathLength) pathCount (devCounters (gpu t))"
  by (simp add: extendShade_PBRT_def Let_def launch_def kernel_spec_def)

lemma spec_bounce_PBRT_reset:
  "kernel E = kernel_spec \<Longrightarrow> fst (bounce_PBRT E view pathLength pathCount t) \<Longrightarrow>
   extensionRays (devCounters (gpu (snd (snd (bounce_PBRT E view pathLength pathCount t))))) = 0"
  by (simp add: bounce_PBRT_def Let_def launch_def kernel_spec_def split: if_splits)

lemma spec_frame_start_PBRT:
  "kernel E = kernel_spec \<Longrightarrow>
   extensionRays (devCounters (gpu (primaryRays_PBRT E view t))) = 0"
  by (simp add: primaryRays_PBRT_def Let_def launch_def kernel_spec_def split: prod.split)

lemma bounce_PBRT_pathCount:
  "fst (snd (bounce_PBRT E view pathLength pathCount t)) =
     (if pathLength = MAXPATHLENGTH E then pathCount
      else extensionRays (devCounters (gpu (extendShade_PBRT E view pathLength pathCount t))))"
  by (simp add: bounce_PBRT_def Let_def CopyToHost_def)

lemma bounce_O7_pathCount:
  "fst (snd (bounce_O7 E view pathLength pathCount s))
     = extensionRays (devCounters (gpu (shade_O7 E view pathLength pathCount
          (extend_O7 E pathLength pathCount s))))"
  by (simp add: bounce_O7_def Let_def CopyToHost_def)

subsection \<open>The overflow flush on the small screen\<close>

theorem overflow_flush_witness:
  "flushed (issued (litO7 sceneLit) (snd (snd (snd (bounce_O7 env3 view0 1 1 (litO7 sceneLit))))))
   \<and> shadowRays (fst (snd (snd (bounce_O7 env3 view0 1 1 (litO7 sceneLit))))) = 1
   \<and> flush (issued (litO7 sceneLit) (snd (snd (snd (bounce_O7 env3 view0 1 1 (litO7 sceneLit))))))
       = [optixLaunch SPAWN_SHADOW 1 1,
          countersCopyToDevice (counters0\<lparr>extensionRays := 1, totalExtensionRays := 1\<rparr>)]
   \<and> shadowRays (counterBuffer (snd (snd (snd (bounce_O7 env3 view0 1 1 (litO7 sceneLit)))))) = 0
   \<and> shadowRays (devCounters (gpu (snd (snd (snd (bounce_O7 env3 view0 1 1 (litO7 sceneLit))))))) = 0
   \<and> flushed (issued (litPBRT sceneLit) (snd (snd (bounce_PBRT env3 view0 1 1 (litPBRT sceneLit)))))
   \<and> flush (issued (litPBRT sceneLit) (snd (snd (bounce_PBRT env3 view0 1 1 (litPBRT sceneLit)))))
       = [rtpQueryAny 1, finalizeConnections 1,
          countersCopyToDevice (counters0\<lparr>extensionRays := 1\<rparr>)]
   \<and> shadowRays (counterBuffer (snd (snd (bounce_PBRT env3 view0 1 1 (litPBRT sceneLit))))) = 0
   \<and> \<not> flushed (issued (litPBRT sceneDark) (snd (snd (bounce_PBRT env3 view0 1 1 (litPBRT sceneDark)))))
   \<and> flush (issued (litPBRT sceneDark) (snd (snd (bounce_PBRT env3 view0 1 1 (litPBRT sceneDark))))) = []"
  using overflow_flush [where E = env3 and view = view0 and pathLength = 1 and pathCount = 1
      and s = "litO7 sceneLit" and t = "litPBRT sceneLit" and u = "litPBRT sceneLit"]
    overflow_flush [where E = env3 and view = view0 and pathLength = 1 and pathCount = 1
      and s = "litO7 sceneLit" and t = "litPBRT sceneDark" and u = "litPBRT sceneLit"]
  by (simp add: split_beta bounce_O7_parts spec_readback_O7 spec_readback_PBRT env3_simps
      lit_simps shadePass_one shadePath_def scene_simps counters0_simps counters0_def)

text \<open>
  The claim as stated fails in both cores. In RenderCore_OptixPrime_PBRT the iteration of
  length 3 = \<^verbatim>\<open>MAXPATHLENGTH\<close> ends with one continuing path and two pending shadow rays in a
  queue of capacity two, and no flush is issued. In RenderCore_Optix7Filter an iteration whose
  paths all end, with two pending shadow rays and capacity two, leaves the loop without a
  flush.
\<close>

theorem overflow_flush_counterexample:
  "of_nat (bufSize (litPBRT sceneBright) ''shadowRayBuffer'')
     \<le> shadowRays (devCounters (gpu (extendShade_PBRT env3 view0 3 1 (litPBRT sceneBright))))
       + extensionRays (devCounters (gpu (extendShade_PBRT env3 view0 3 1 (litPBRT sceneBright))))
   \<and> \<not> flushed (issued (litPBRT sceneBright)
         (snd (snd (bounce_PBRT env3 view0 3 1 (litPBRT sceneBright)))))
   \<and> (of_nat (bufSize (litO7 sceneGlow) ''connectionBuffer'' div 3) :: uint)
     \<le> extensionRays (fst (snd (snd (bounce_O7 env3 view0 1 1 (litO7 sceneGlow)))))
       + shadowRays (fst (snd (snd (bounce_O7 env3 view0 1 1 (litO7 sceneGlow)))))
   \<and> \<not> flushed (issued (litO7 sceneGlow)
         (snd (snd (snd (bounce_O7 env3 view0 1 1 (litO7 sceneGlow))))))
   \<and> flush (issued (litPBRT sceneBright)
         (snd (snd (bounce_PBRT env3 view0 3 1 (litPBRT sceneBright))))) = []
   \<and> flush (issued (litO7 sceneGlow)
         (snd (snd (snd (bounce_O7 env3 view0 1 1 (litO7 sceneGlow)))))) = []"
  by (simp add: bounce_PBRT_flushed bounce_O7_flushed bounce_PBRT_flush bounce_O7_flush
      Let_def bounce_O7_parts spec_readback_O7
      spec_readback_PBRT env3_simps lit_simps shadePass_one shadePath_def scene_simps
      counters0_simps)

subsection \<open>The wavefront loops\<close>

text \<open>What an iteration leaves alone.\<close>

lemma bounce_PBRT_frame:
  "samplesTaken (snd (snd (bounce_PBRT E view pathLength pathCount s))) = samplesTaken s
   \<and> firstConvergingFrame (snd (snd (bounce_PBRT E view pathLength pathCount s))) = firstConvergingFrame s
   \<and> scrspp (snd (snd (bounce_PBRT E view pathLength pathCount s))) = scrspp s
   \<and> buffers (snd (snd (bounce_PBRT E view pathLength pathCount s))) = buffers s"
  by (simp add: bounce_PBRT_def Let_def launch_def overflow_PBRT_def CopyToDevice_def
      CopyToHost_def swapBuffers_def extendShade_PBRT_def)

lemma bounce_O7_frame:
  "samplesTaken (snd (snd (snd (bounce_O7 E view pathLength pathCount s)))) = samplesTaken s
   \<and> firstConvergingFrame (snd (snd (snd (bounce_O7 E view pathLength pathCount s)))) = firstConvergingFrame s
   \<and> scrspp (snd (snd (snd (bounce_O7 E view pathLength pathCount s)))) = scrspp s
   \<and> buffers (snd (snd (snd (bounce_O7 E view pathLength pathCount s)))) = buffers s
   \<and> RenderCore.more (snd (snd (snd (bounce_O7 E view pathLength pathCount s)))) = RenderCore.more s"
  by (simp add: bounce_O7_def Let_def launch_def overflow_O7_def CopyToDevice_def
      CopyToHost_def shade_O7_def extend_O7_def split: prod.split)

text \<open>The loops, one iteration at a time, and a rule for their invariants: \<open>P\<close> holds
  before every iteration, \<open>Q\<close> when the loop is left.\<close>

lemma wavefront_PBRT_unfold:
  "wavefront_PBRT E view lastLength pathLength pathCount s =
     (if pathLength \<le> lastLength then
        (if fst (bounce_PBRT E view pathLength pathCount s)
         then wavefront_PBRT E view lastLength (pathLength + 1)
                (fst (snd (bounce_PBRT E view pathLength pathCount s)))
                (snd (snd (bounce_PBRT E view pathLength pathCount s)))
         else snd (bounce_PBRT E view pathLength pathCount s))
      else (pathCount, s))"
  by (subst wavefront_PBRT.simps) (simp add: split_beta)

lemma wavefront_O7_unfold:
  "wavefront_O7 E view pathLength pathCount counters s =
     (if pathLength \<le> MAXPATHLENGTH E then
        (if fst (bounce_O7 E view pathLength pathCount s)
         then wavefront_O7 E view (pathLength + 1)
                (fst (snd (bounce_O7 E view pathLength pathCount s)))
                (fst (snd (snd (bounce_O7 E view pathLength pathCount s))))
                (snd (snd (snd (bounce_O7 E view pathLength pathCount s))))
         else snd (bounce_O7 E view pathLength pathCount s))
      else (pathCount, counters, s))"
  by (subst wavefront_O7.simps) (simp add: split_beta)

lemma wavefront_PBRT_rule:
  assumes init: "P pathLength pathCount s"
    and step: "\<And>pl pc u. P pl pc u \<Longrightarrow> pl \<le> lastLength \<Longrightarrow> fst (bounce_PBRT E view pl pc u)
                 \<Longrightarrow> P (pl + 1) (fst (snd (bounce_PBRT E view pl pc u)))
                       (snd (snd (bounce_PBRT E view pl pc u)))"
    and brk: "\<And>pl pc u. P pl pc u \<Longrightarrow> pl \<le> lastLength \<Longrightarrow> \<not> fst (bounce_PBRT E view pl pc u)
                 \<Longrightarrow> Q (snd (bounce_PBRT E view pl pc u))"
    and leave: "\<And>pl pc u. P pl pc u \<Longrightarrow> \<not> pl \<le> lastLength \<Longrightarrow> Q (pc, u)"
  shows "Q (wavefront_PBRT E view lastLength pathLength pathCount s)"
  using init
proof (induction "Suc lastLength - pathLength" arbitrary: pathLength pathCount s)
  case 0
  then have f: "\<not> pathLength \<le> lastLength" by simp
  have "Q (pathCount, s)"
    by (rule leave [OF "0.prems" f])
  with f show ?case
    by (subst wavefront_PBRT_unfold) simp
next
  case (Suc n)
  then have t: "pathLength \<le> lastLength" by simp
  show ?case
  proof (cases "fst (bounce_PBRT E view pathLength pathCount s)")
    case False
    have "Q (snd (bounce_PBRT E view pathLength pathCount s))"
      by (rule brk [OF Suc.prems t False])
    with t False show ?thesis
      by (subst wavefront_PBRT_unfold) simp
  next
    case True
    have n: "n = Suc lastLength - (pathLength + 1)"
      using Suc.hyps(2) by simp
    have "Q (wavefront_PBRT E view lastLength (pathLength + 1)
              (fst (snd (bounce_PBRT E view pathLength pathCount s)))
              (snd (snd (bounce_PBRT E view pathLength pathCount s))))"
      by (rule Suc.hyps(1) [OF n]) (rule step [OF Suc.prems t True])
    with t True show ?thesis
      by (subst wavefront_PBRT_unfold) simp
  qed
qed

lemma wavefront_O7_rule:
  assumes init: "P pathLength pathCount counters s"
    and step: "\<And>pl pc c u. P pl pc c u \<Longrightarrow> pl \<le> MAXPATHLENGTH E \<Longrightarrow> fst (bounce_O7 E view pl pc u)
                 \<Longrightarrow> P (pl + 1) (fst (snd (bounce_O7 E view pl pc u)))
                       (fst (snd (snd (bounce_O7 E view pl pc u))))
                       (snd (snd (snd (bounce_O7 E view pl pc u))))"
    and brk: "\<And>pl pc c u. P pl pc c u \<Longrightarrow> pl \<le> MAXPATHLENGTH E \<Longrightarrow> \<not> fst (bounce_O7 E view pl pc u)
                 \<Longrightarrow> Q (snd (bounce_O7 E view pl pc u))"
    and leave: "\<And>pl pc c u. P pl pc c u \<Longrightarrow> \<not> pl \<le> MAXPATHLENGTH E \<Longrightarrow> Q (pc, c, u)"
  shows "Q (wavefront_O7 E view pathLength pathCount counters s)"
  using init
proof (induction "Suc (MAXPATHLENGTH E) - pathLength" arbitrary: pathLength pathCount counters s)
  case 0
  then have f: "\<not> pathLength \<le> MAXPATHLENGTH E" by simp
  have "Q (pathCount, counters, s)"
    by (rule leave [OF "0.prems" f])
  with f show ?case
    by (subst wavefront_O7_unfold) simp
next
  case (Suc n)
  then have t: "pathLength \<le> MAXPATHLENGTH E" by simp
  show ?case
  proof (cases "fst (bounce_O7 E view pathLength pathCount s)")
    case False
    have "Q (snd (bounce_O7 E view pathLength pathCount s))"
      by (rule brk [OF Suc.prems t False])
    with t False show ?thesis
      by (subst wavefront_O7_unfold) simp
  next
    case True
    have n: "n = Suc (MAXPATHLENGTH E) - (pathLength + 1)"
      using Suc.hyps(2) by simp
    have "Q (wavefront_O7 E view (pathLength + 1)
              (fst (snd (bounce_O7 E view pathLength pathCount s)))
              (fst (snd (snd (bounce_O7 E view pathLength pathCount s))))
              (snd (snd (snd (bounce_O7 E view pathLength pathCount s)))))"
      by (rule Suc.hyps(1) [OF n]) (rule step [OF Suc.prems t True])
    with t True show ?thesis
      by (subst wavefront_O7_unfold) simp
  qed
qed

lemma wavefront_PBRT_frame:
  "samplesTaken (snd (wavefront_PBRT E view lastLength pathLength pathCount s)) = samplesTaken s
   \<and> firstConvergingFrame (snd (wavefront_PBRT E view lastLength pathLength pathCount s)) = firstConvergingFrame s
   \<and> scrspp (snd (wavefront_PBRT E view lastLength pathLength pathCount s)) = scrspp s
   \<and> buffers (snd (wavefront_PBRT E view lastLength pathLength pathCount s)) = buffers s"
  by (rule wavefront_PBRT_rule
      [where P = "\<lambda>pl pc u. samplesTaken u = samplesTaken s
                    \<and> firstConvergingFrame u = firstConvergingFrame s
                    \<and> scrspp u = scrspp s \<and> buffers u = buffers s"])
     (simp_all add: bounce_PBRT_frame)

lemma wavefront_O7_frame:
  "samplesTaken (snd (snd (wavefront_O7 E view pathLength pathCount counters s))) = samplesTaken s
   \<and> firstConvergingFrame (snd (snd (wavefront_O7 E view pathLength pathCount counters s))) = firstConvergingFrame s
   \<and> scrspp (snd (snd (wavefront_O7 E view pathLength pathCount counters s))) = scrspp s
   \<and> buffers (snd (snd (wavefront_O7 E view pathLength pathCount counters s))) = buffers s
   \<and> RenderCore.more (snd (snd (wavefront_O7 E view pathLength pathCount counters s))) = RenderCore.more s"
  by (rule wavefront_O7_rule
      [where P = "\<lambda>pl pc c u. samplesTaken u = samplesTaken s
                    \<and> firstConvergingFrame u = firstConvergingFrame s
                    \<and> scrspp u = scrspp s \<and> buffers u = buffers s
                    \<and> RenderCore.more u = RenderCore.more s"])
     (simp_all add: bounce_O7_frame)

subsection \<open>The two extension-ray queues\<close>

lemma log_append:
  "iterations (xs @ ys) = iterations xs + iterations ys"
  "swaps (xs @ ys) = swaps xs + swaps ys"
  by (simp_all add: iterations_def swaps_def)

lemma queues_append: "queues (xs @ ys) = queues xs @ queues ys"
  by (induction xs rule: queues.induct) simp_all

lemma issued_step:
  "trace u = trace s @ issued s u \<Longrightarrow> trace u1 = trace u @ ops
     \<Longrightarrow> issued s u1 = issued s u @ ops \<and> trace u1 = trace s @ issued s u1"
  by (simp add: issued_def) (metis append_eq_conv_conj length_append drop_append append.assoc)

lemma issued_self: "trace s = trace s @ issued s s"
  by (simp add: issued_def)

text \<open>What one iteration of the OptiX Prime loop adds to the log.\<close>

lemma bounce_PBRT_log:
  "\<exists>ops. trace (snd (snd (bounce_PBRT E view pathLength pathCount u))) = trace u @ ops
      \<and> iterations ops = 1
      \<and> swaps ops = (if pathLength = MAXPATHLENGTH E then 0 else 1)
      \<and> queues ops = [(inBuffer u, outBuffer u)]"
  by (simp add: bounce_PBRT_trace Let_def trace_extendShade_PBRT iterations_def swaps_def)

lemma bounce_PBRT_continue:
  "fst (bounce_PBRT E view pathLength pathCount u) = (pathLength \<noteq> MAXPATHLENGTH E)"
  by (simp add: bounce_PBRT_def Let_def)

lemma bounce_PBRT_roles:
  "(inBuffer (snd (snd (bounce_PBRT E view pathLength pathCount u))),
    outBuffer (snd (snd (bounce_PBRT E view pathLength pathCount u))))
   = (if pathLength = MAXPATHLENGTH E then (inBuffer u, outBuffer u) else (outBuffer u, inBuffer u))"
  by (simp add: bounce_PBRT_def Let_def launch_def overflow_PBRT_def CopyToDevice_def
      CopyToHost_def swapBuffers_def extendShade_PBRT_def)

lemma roles_Suc: "roles q (Suc k) = (snd (roles q k), fst (roles q k))"
  by (simp add: roles_def)


text \<open>The log of the first \<open>N\<close> iterations of the OptiX Prime loop.\<close>

lemma wavefront_PBRT_log:
  assumes N: "N \<le> MAXPATHLENGTH E"
  shows "trace (snd (wavefront_PBRT E view N 1 pathCount s))
           = trace s @ issued s (snd (wavefront_PBRT E view N 1 pathCount s))
     \<and> iterations (issued s (snd (wavefront_PBRT E view N 1 pathCount s))) = N
     \<and> swaps (issued s (snd (wavefront_PBRT E view N 1 pathCount s))) = min N (MAXPATHLENGTH E - 1)
     \<and> queues (issued s (snd (wavefront_PBRT E view N 1 pathCount s)))
         = map (roles (inBuffer s, outBuffer s)) [0..<N]
     \<and> (inBuffer (snd (wavefront_PBRT E view N 1 pathCount s)),
         outBuffer (snd (wavefront_PBRT E view N 1 pathCount s)))
         = roles (inBuffer s, outBuffer s) (min N (MAXPATHLENGTH E - 1))"
proof -
  let ?q = "(inBuffer s, outBuffer s)"
  let ?M = "MAXPATHLENGTH E"
  let ?P = "\<lambda>pl (pc :: uint) u. 1 \<le> pl \<and> pl \<le> N + 1 \<and> pl - 1 \<le> ?M - 1
              \<and> trace u = trace s @ issued s u
              \<and> iterations (issued s u) = pl - 1 \<and> swaps (issued s u) = pl - 1
              \<and> queues (issued s u) = map (roles ?q) [0..<pl - 1]
              \<and> (inBuffer u, outBuffer u) = roles ?q (pl - 1)"
  let ?Q = "\<lambda>r. trace (snd r) = trace s @ issued s (snd r)
              \<and> iterations (issued s (snd r)) = N
              \<and> swaps (issued s (snd r)) = min N (?M - 1)
              \<and> queues (issued s (snd r)) = map (roles ?q) [0..<N]
              \<and> (inBuffer (snd r), outBuffer (snd r)) = roles ?q (min N (?M - 1))"
  have "?Q (wavefront_PBRT E view N 1 pathCount s)"
  proof (rule wavefront_PBRT_rule [where P = ?P and Q = ?Q])
    show "?P 1 pathCount s"
      by (simp add: issued_def iterations_def swaps_def roles_def)
  next
    fix pl pc u
    assume P: "?P pl pc u" and le: "pl \<le> N" and c: "fst (bounce_PBRT E view pl pc u)"
    let ?u = "snd (snd (bounce_PBRT E view pl pc u))"
    from c have ne: "pl \<noteq> ?M" by (simp add: bounce_PBRT_continue)
    obtain ops where ops: "trace ?u = trace u @ ops" "iterations ops = 1"
        "swaps ops = (if pl = ?M then 0 else 1)" "queues ops = [(inBuffer u, outBuffer u)]"
      using bounce_PBRT_log [of E view pl pc u] by blast
    from P have ext: "trace u = trace s @ issued s u" by simp
    note st = issued_step [OF ext ops(1)]
    from P have pl1: "1 \<le> pl" by simp
    then have suc: "pl = Suc (pl - 1)" by simp
    have r: "(inBuffer ?u, outBuffer ?u) = roles ?q pl"
      using P ne bounce_PBRT_roles [of E view pl pc u] roles_Suc [of ?q "pl - 1"] suc
      by (metis fst_conv snd_conv)
    have qs: "queues (issued s ?u) = map (roles ?q) [0..<pl]"
    proof -
      have "queues (issued s ?u) = map (roles ?q) [0..<pl - 1] @ [roles ?q (pl - 1)]"
        using st P ops(4) by (simp add: queues_append)
      also have "\<dots> = map (roles ?q) [0..<Suc (pl - 1)]" by simp
      finally show ?thesis using suc by simp
    qed
    show "?P (pl + 1) (fst (snd (bounce_PBRT E view pl pc u))) ?u"
      using st P ops(2,3) ne le N r qs pl1 by (simp add: log_append)
  next
    fix pl pc u
    assume P: "?P pl pc u" and le: "pl \<le> N" and c: "\<not> fst (bounce_PBRT E view pl pc u)"
    let ?u = "snd (snd (bounce_PBRT E view pl pc u))"
    from c have eq: "pl = ?M" by (simp add: bounce_PBRT_continue)
    with le N have NM: "N = ?M" by simp
    obtain ops where ops: "trace ?u = trace u @ ops" "iterations ops = 1"
        "swaps ops = (if pl = ?M then 0 else 1)" "queues ops = [(inBuffer u, outBuffer u)]"
      using bounce_PBRT_log [of E view pl pc u] by blast
    from P have ext: "trace u = trace s @ issued s u" by simp
    note st = issued_step [OF ext ops(1)]
    from P have pl1: "1 \<le> pl" by simp
    then have suc: "pl = Suc (pl - 1)" by simp
    have r: "(inBuffer ?u, outBuffer ?u) = roles ?q (pl - 1)"
      using P eq bounce_PBRT_roles [of E view pl pc u] by simp
    have qs: "queues (issued s ?u) = map (roles ?q) [0..<pl]"
    proof -
      have "queues (issued s ?u) = map (roles ?q) [0..<pl - 1] @ [roles ?q (pl - 1)]"
        using st P ops(4) by (simp add: queues_append)
      also have "\<dots> = map (roles ?q) [0..<Suc (pl - 1)]" by simp
      finally show ?thesis using suc by simp
    qed
    show "?Q (snd (bounce_PBRT E view pl pc u))"
      using st P ops(2,3) eq NM r qs pl1 by (simp add: log_append min_def)
  next
    fix pl pc u
    assume P: "?P pl pc u" and gt: "\<not> pl \<le> N"
    from P have "pl \<le> N + 1" by simp
    with gt have eq: "pl - 1 = N" by arith
    with P have "N \<le> ?M - 1" by simp
    then have "min N (?M - 1) = N" by simp
    with P eq show "?Q (pc, u)" by simp
  qed
  then show ?thesis by simp
qed

text \<open>
  C6, as amended. After \<open>N\<close> completed iterations of the wavefront loop of a frame
  (\<open>N\<close> at most \<^verbatim>\<open>MAXPATHLENGTH\<close>) the two extension-ray queues have been exchanged
  \<open>min N (MAXPATHLENGTH - 1)\<close> times: once in every iteration but the one of length
  \<^verbatim>\<open>MAXPATHLENGTH\<close>, which leaves the loop right after its shading pass. The shading pass of
  iteration \<open>k + 1\<close> reads the queue that is the input after \<open>k\<close> exchanges and writes the
  other one.
\<close>

theorem queue_roles:
  "N \<le> MAXPATHLENGTH E \<longrightarrow>
     (case wavefront_PBRT E view N 1 pathCount s of
        (pathCount1, s1) \<Rightarrow>
          iterations (issued s s1) = N
          \<and> swaps (issued s s1) = min N (MAXPATHLENGTH E - 1)
          \<and> queues (issued s s1) = map (roles (inBuffer s, outBuffer s)) [0..<N]
          \<and> (inBuffer s1, outBuffer s1)
              = roles (inBuffer s, outBuffer s) (min N (MAXPATHLENGTH E - 1)))"
  using wavefront_PBRT_log [of N E view pathCount s]
  by (simp add: split_beta)

theorem queue_roles_witness:
  "2 \<le> MAXPATHLENGTH env3
   \<and> iterations (issued (litPBRT sceneLit) (snd (wavefront_PBRT env3 view0 2 1 1 (litPBRT sceneLit)))) = 2
   \<and> swaps (issued (litPBRT sceneLit) (snd (wavefront_PBRT env3 view0 2 1 1 (litPBRT sceneLit)))) = 2
   \<and> queues (issued (litPBRT sceneLit) (snd (wavefront_PBRT env3 view0 2 1 1 (litPBRT sceneLit))))
        = [(0, 1), (1, 0)]
   \<and> inBuffer (snd (wavefront_PBRT env3 view0 2 1 1 (litPBRT sceneLit))) = 0
   \<and> outBuffer (snd (wavefront_PBRT env3 view0 2 1 1 (litPBRT sceneLit))) = 1"
  using queue_roles [where N = 2 and E = env3 and view = view0 and pathCount = 1
      and s = "litPBRT sceneLit"]
  by (simp add: split_beta env3_simps litPBRT_eq roles_def upt_2)

text \<open>
  The claim as stated fails at the end of the loop: with \<^verbatim>\<open>MAXPATHLENGTH\<close> 3 the frame has
  three completed iterations (three shading passes) and two exchanges.
\<close>

theorem queue_roles_counterexample:
  "iterations (issued (litPBRT sceneLit) (snd (wavefront_PBRT env3 view0 3 1 1 (litPBRT sceneLit)))) = 3
   \<and> swaps (issued (litPBRT sceneLit) (snd (wavefront_PBRT env3 view0 3 1 1 (litPBRT sceneLit)))) = 2
   \<and> MAXPATHLENGTH env3 = 3"
  using wavefront_PBRT_log [of 3 env3 view0 1 "litPBRT sceneLit"]
  by (simp add: env3_simps)

subsection \<open>The frame of RenderCore_OptixPrime_PBRT\<close>

lemma restart_cases: "restartFlag Restart s" "restartFlag Converge s = firstConvergingFrame s"
  by (simp_all add: restartFlag_def)

lemma trace_connect_PBRT:
  "trace (connect_PBRT E s) = trace s @ countersCopyToHost #
     (if shadowRays (devCounters (gpu s)) > 0
      then [rtpQueryAny (shadowRays (devCounters (gpu s))),
            finalizeConnections (shadowRays (devCounters (gpu s)))]
      else [])"
  by (simp add: connect_PBRT_def Let_def CopyToHost_def launch_def)

lemma connect_PBRT_frame:
  "samplesTaken (connect_PBRT E s) = samplesTaken s
   \<and> firstConvergingFrame (connect_PBRT E s) = firstConvergingFrame s
   \<and> scrspp (connect_PBRT E s) = scrspp s"
  by (simp add: connect_PBRT_def Let_def CopyToHost_def launch_def)

lemma iterations_simps:
  "iterations [] = 0"
  "iterations (op # ops) = (if isShade op then 1 else 0) + iterations ops"
  by (simp_all add: iterations_def)

lemma pathCounts_append: "pathCounts (xs @ ys) = pathCounts xs @ pathCounts ys"
  by (induction xs rule: pathCounts.induct) simp_all

lemma trace_primaryRays_PBRT:
  "trace (primaryRays_PBRT E view s) = trace s @
     [InitCountersForExtend (scrwidth s * scrheight s * scrspp s),
      generateEyeRays (inBuffer s) (fst (RandomUInt E (camRNGseed s))) (samplesTaken s) view]"
  by (simp add: primaryRays_PBRT_def Let_def launch_def split: prod.split)

lemma primaryRays_PBRT_frame:
  "samplesTaken (primaryRays_PBRT E view s) = samplesTaken s
   \<and> firstConvergingFrame (primaryRays_PBRT E view s) = firstConvergingFrame s
   \<and> scrspp (primaryRays_PBRT E view s) = scrspp s
   \<and> scrwidth (primaryRays_PBRT E view s) = scrwidth s
   \<and> scrheight (primaryRays_PBRT E view s) = scrheight s"
  by (simp add: primaryRays_PBRT_def Let_def launch_def split: prod.split)

text \<open>The frame of the OptiX Prime core: its log is the log of the loop, with operations
  before and after it that are no shading passes.\<close>

lemma renderImage_PBRT_issued:
  "\<exists>pre post.
     issued s (renderImage_PBRT E view s)
       = pre @ issued (loopStart_PBRT E view s)
                 (snd (wavefront_PBRT E view (MAXPATHLENGTH E) 1
                    (scrwidth s * scrheight s * scrspp s) (loopStart_PBRT E view s)))
             @ post
     \<and> trace (renderImage_PBRT E view s) = trace s @ issued s (renderImage_PBRT E view s)
     \<and> iterations pre = 0 \<and> iterations post = 0 \<and> pathCounts pre = [] \<and> pathCounts post = []"
proof -
  let ?pc = "scrwidth s * scrheight s * scrspp s"
  let ?s3 = "loopStart_PBRT E view s"
  let ?s4 = "snd (wavefront_PBRT E view (MAXPATHLENGTH E) 1 ?pc ?s3)"
  let ?pre = "[InitCountersForExtend ?pc,
      generateEyeRays (inBuffer s) (fst (RandomUInt E (camRNGseed s))) (samplesTaken s) view]"
  have l: "trace ?s4 = trace ?s3 @ issued ?s3 ?s4"
    using wavefront_PBRT_log [of "MAXPATHLENGTH E" E view ?pc ?s3] by simp
  have t3: "trace ?s3 = trace s @ ?pre"
    by (simp add: loopStart_PBRT_def trace_primaryRays_PBRT)
  have "\<exists>post. trace (renderImage_PBRT E view s) = trace ?s4 @ post \<and> iterations post = 0
      \<and> pathCounts post = []"
    by (simp add: renderImage_PBRT_def Let_def split_beta trace_launch trace_connect_PBRT
        iterations_simps primaryRays_PBRT_frame loopStart_PBRT_def)
  then obtain post where post: "trace (renderImage_PBRT E view s) = trace ?s4 @ post"
      "iterations post = 0" "pathCounts post = []"
    by blast
  have i: "issued s (renderImage_PBRT E view s) = ?pre @ issued ?s3 ?s4 @ post"
    unfolding issued_def [of s] post(1) l t3 by simp
  have e: "trace (renderImage_PBRT E view s) = trace s @ issued s (renderImage_PBRT E view s)"
    unfolding i unfolding post(1) l t3 by simp
  have "iterations ?pre = 0 \<and> pathCounts ?pre = []"
    by (simp add: iterations_simps)
  with i e post(2,3) show ?thesis by blast
qed

lemma renderImage_PBRT_log:
  "iterations (issued s (renderImage_PBRT E view s)) = MAXPATHLENGTH E"
  and renderImage_PBRT_extends:
  "trace (renderImage_PBRT E view s) = trace s @ issued s (renderImage_PBRT E view s)"
proof -
  obtain pre post where i: "issued s (renderImage_PBRT E view s)
       = pre @ issued (loopStart_PBRT E view s)
                 (snd (wavefront_PBRT E view (MAXPATHLENGTH E) 1
                    (scrwidth s * scrheight s * scrspp s) (loopStart_PBRT E view s)))
             @ post"
    and e: "trace (renderImage_PBRT E view s) = trace s @ issued s (renderImage_PBRT E view s)"
    and z: "iterations pre = 0" "iterations post = 0"
    using renderImage_PBRT_issued [of s E view] by blast
  show "trace (renderImage_PBRT E view s) = trace s @ issued s (renderImage_PBRT E view s)"
    by (rule e)
  show "iterations (issued s (renderImage_PBRT E view s)) = MAXPATHLENGTH E"
    unfolding i using z wavefront_PBRT_log [of "MAXPATHLENGTH E" E view _ "loopStart_PBRT E view s"]
    by (simp add: log_append)
qed

lemma renderImage_PBRT_samples:
  "samplesTaken (renderImage_PBRT E view s) = samplesTaken s + scrspp s
   \<and> firstConvergingFrame (renderImage_PBRT E view s) = firstConvergingFrame s"
  by (simp add: renderImage_PBRT_def Let_def split_beta launch_def connect_PBRT_frame
      wavefront_PBRT_frame primaryRays_PBRT_frame)

lemma trace_clearAccumulator: "trace (clearAccumulator s) = trace s @ [accumulatorClear]"
  by (simp add: clearAccumulator_def)

lemma Render_PBRT_start:
  "Render_PBRT E view converge async s = renderImage_PBRT E view (restart_PBRT E converge s)"
  by (simp add: Render_PBRT_def Let_def restartFlag_def UpdateToplevel_PBRT_def launch_def
      restart_PBRT_def)

lemma restart_PBRT_frame:
  "samplesTaken (restart_PBRT E converge s) = (if restartFlag converge s then 0 else samplesTaken s)
   \<and> firstConvergingFrame (restart_PBRT E converge s) = (converge = Restart)
   \<and> scrspp (restart_PBRT E converge s) = scrspp s
   \<and> scrwidth (restart_PBRT E converge s) = scrwidth s
   \<and> scrheight (restart_PBRT E converge s) = scrheight s
   \<and> trace (restart_PBRT E converge s)
       = trace s @ rtpModelUpdate # (if restartFlag converge s then [accumulatorClear] else [])"
  by (cases converge)
     (simp_all add: restart_PBRT_def clearFlag_def restartFlag_def UpdateToplevel_PBRT_def
        launch_def clearAccumulator_def)

lemma Render_PBRT_samples:
  "samplesTaken (Render_PBRT E view converge async s)
     = (if restartFlag converge s then 0 else samplesTaken s) + scrspp s"
  by (simp add: Render_PBRT_start renderImage_PBRT_samples restart_PBRT_frame)

lemma Render_PBRT_flag:
  "firstConvergingFrame (Render_PBRT E view converge async s) = (converge = Restart)"
  by (simp add: Render_PBRT_start renderImage_PBRT_samples restart_PBRT_frame)

lemma Render_PBRT_issued:
  "issued s (Render_PBRT E view converge async s)
     = rtpModelUpdate # (if restartFlag converge s then [accumulatorClear] else [])
       @ issued (restart_PBRT E converge s) (renderImage_PBRT E view (restart_PBRT E converge s))"
  unfolding Render_PBRT_start issued_def [of s]
  by (subst renderImage_PBRT_extends) (simp add: restart_PBRT_frame)

lemma Render_PBRT_iterations:
  "iterations (issued s (Render_PBRT E view converge async s)) = MAXPATHLENGTH E"
  by (simp add: Render_PBRT_issued renderImage_PBRT_log iterations_simps log_append)

lemma Render_PBRT_pathCounts:
  "pathCounts (issued s (Render_PBRT E view converge async s))
     = pathCounts (issued (loopStart_PBRT E view (restart_PBRT E converge s))
         (snd (wavefront_PBRT E view (MAXPATHLENGTH E) 1
            (scrwidth s * scrheight s * scrspp s)
            (loopStart_PBRT E view (restart_PBRT E converge s)))))"
proof -
  obtain pre post where i: "issued (restart_PBRT E converge s)
        (renderImage_PBRT E view (restart_PBRT E converge s))
       = pre @ issued (loopStart_PBRT E view (restart_PBRT E converge s))
                 (snd (wavefront_PBRT E view (MAXPATHLENGTH E) 1
                    (scrwidth (restart_PBRT E converge s)
                       * scrheight (restart_PBRT E converge s)
                       * scrspp (restart_PBRT E converge s))
                    (loopStart_PBRT E view (restart_PBRT E converge s))))
             @ post"
    and z: "pathCounts pre = []" "pathCounts post = []"
    using renderImage_PBRT_issued [of "restart_PBRT E converge s" E view] by blast
  show ?thesis
    unfolding Render_PBRT_issued i using z
    by (simp add: pathCounts_append restart_PBRT_frame)
qed

subsection \<open>The frame of RenderCore_Optix7Filter\<close>

lemma fold_launch_frame:
  "samplesTaken (fold (launch E) ops s) = samplesTaken s
   \<and> firstConvergingFrame (fold (launch E) ops s) = firstConvergingFrame s
   \<and> scrspp (fold (launch E) ops s) = scrspp s
   \<and> RenderCore.more (fold (launch E) ops s) = RenderCore.more s"
  by (induction ops arbitrary: s) (simp_all add: launch_def)

lemma pushStagedCopies_frame:
  "samplesTaken (pushStagedCopies E s) = samplesTaken s
   \<and> firstConvergingFrame (pushStagedCopies E s) = firstConvergingFrame s
   \<and> scrspp (pushStagedCopies E s) = scrspp s
   \<and> RenderCore.more (pushStagedCopies E s) = RenderCore.more s"
  by (simp add: pushStagedCopies_def fold_launch_frame)

lemma renderImage_O7_frame:
  "samplesTaken (renderImage_O7 E view s) = samplesTaken s
   \<and> firstConvergingFrame (renderImage_O7 E view s) = firstConvergingFrame s
   \<and> scrspp (renderImage_O7 E view s) = scrspp s"
  by (simp add: renderImage_O7_def Let_def split_beta launch_def wavefront_O7_frame)

lemma FinalizeRender_frame:
  "samplesTaken (FinalizeRender E s) = samplesTaken s + scrspp s
   \<and> firstConvergingFrame (FinalizeRender E s) = firstConvergingFrame s"
  by (simp add: FinalizeRender_def Let_def launch_def)

lemma jitter_frame:
  "samplesTaken (jitter s) = samplesTaken s
   \<and> firstConvergingFrame (jitter s) = firstConvergingFrame s
   \<and> scrspp (jitter s) = scrspp s"
  by (simp add: jitter_def Let_def)

text \<open>The state in which \<^verbatim>\<open>Render\<close> of the OptiX core starts the frame, when it finds scene
  data: staged writes pushed, the restart handled, the view jittered.\<close>

lemma Render_O7_sync:
  "gpuHasSceneData s \<Longrightarrow>
   Render_O7 E view converge False s =
     (FinalizeRender E (RenderImpl E view
        (jitter (clearFlag converge
           (if restartFlag converge (pushStagedCopies E s)
            then (pushStagedCopies E s)\<lparr>samplesTaken := 0, firstConvergingFrame := True\<rparr>
            else pushStagedCopies E s)))))\<lparr>prevView := view\<rparr>"
  by (simp add: Render_O7_def Let_def)

lemma Render_O7_async:
  "gpuHasSceneData s \<Longrightarrow>
   Render_O7 E view converge True s =
     (runWorker E view
        ((jitter (clearFlag converge
           (if restartFlag converge (pushStagedCopies E s)
            then (pushStagedCopies E s)\<lparr>samplesTaken := 0, firstConvergingFrame := True\<rparr>
            else pushStagedCopies E s)))\<lparr>asyncRenderInProgress := True\<rparr>))\<lparr>prevView := view\<rparr>"
  by (simp add: Render_O7_def Let_def)

lemma restartFlag_push: "restartFlag converge (pushStagedCopies E s) = restartFlag converge s"
  by (simp add: restartFlag_def pushStagedCopies_frame)

lemma RenderImpl_frame:
  "samplesTaken (RenderImpl E view s) = samplesTaken s
   \<and> firstConvergingFrame (RenderImpl E view s) = firstConvergingFrame s
   \<and> scrspp (RenderImpl E view s) = scrspp s"
  by (simp add: RenderImpl_def Let_def renderImage_O7_frame launch_def clearAccumulator_def)

lemma Render_O7_samples:
  "gpuHasSceneData s \<Longrightarrow>
   samplesTaken (Render_O7 E view converge async s)
     = (if restartFlag converge s then 0 else samplesTaken s) + (if async then 0 else scrspp s)"
  by (cases async)
     (simp_all add: Render_O7_sync Render_O7_async FinalizeRender_frame RenderImpl_frame
        jitter_frame clearFlag_def pushStagedCopies_frame restartFlag_push runWorker_def Let_def)

lemma Render_O7_flag:
  "gpuHasSceneData s \<Longrightarrow>
   firstConvergingFrame (Render_O7 E view converge async s) = (converge = Restart)"
  by (cases async; cases converge)
     (simp_all add: Render_O7_sync Render_O7_async FinalizeRender_frame RenderImpl_frame
        jitter_frame clearFlag_def pushStagedCopies_frame restartFlag_push runWorker_def Let_def
        restartFlag_def)

subsection \<open>Restart and converge\<close>

lemma RenderImpl_restart:
  "samplesTaken s = 0 \<Longrightarrow>
   RenderImpl E view s = renderImage_O7 E view (clearAccumulator (launch E optixAccelBuild s))"
  by (simp add: RenderImpl_def Let_def launch_def)

lemma frame_start_O7:
  "samplesTaken (clearAccumulator (launch E optixAccelBuild s)) = samplesTaken s
   \<and> cleared (accumulator (gpu (clearAccumulator (launch E optixAccelBuild s))))"
  by (simp add: clearAccumulator_cleared) (simp add: clearAccumulator_def launch_def)

lemma frame_start_PBRT:
  "restartFlag converge s \<Longrightarrow>
   samplesTaken (restart_PBRT E converge s) = 0
   \<and> cleared (accumulator (gpu (restart_PBRT E converge s)))"
  using clearAccumulator_cleared [of "UpdateToplevel_PBRT E s"]
  by (simp add: restart_PBRT_def clearFlag_def)

text \<open>
  C5, as amended. For every call of \<^verbatim>\<open>Render\<close> on a core that has its buffers (\<^verbatim>\<open>SetTarget\<close> has
  allocated them) and that gets past the scene-data test (every call in
  RenderCore_OptixPrime_PBRT; in RenderCore_Optix7Filter those with \<^verbatim>\<open>gpuHasSceneData\<close> set):
  if the convergence is \<^verbatim>\<open>Restart\<close> or the first-converging-frame flag is set, the frame
  is rendered from a state whose sample count is zero and whose accumulator is all zero, so
  that the sample count after a synchronous call is the samples per pixel (after an
  asynchronous one it is zero, the finalize pass not having run yet); the flag is set, and a
  call with \<^verbatim>\<open>Converge\<close> clears it again, so that after the call the flag is set exactly when
  the convergence was \<^verbatim>\<open>Restart\<close>.
\<close>

theorem converge_restart:
  "(gpuHasSceneData (s :: ('m, 'x) RenderCoreO7_scheme) \<and> allocated_O7 s
      \<and> restartFlag converge s \<longrightarrow>
      (\<exists>t. samplesTaken t = 0 \<and> cleared (accumulator (gpu t))
           \<and> Render_O7 E view converge False s
               = (FinalizeRender E (renderImage_O7 E view t))\<lparr>prevView := view\<rparr>)
      \<and> (\<exists>t :: ('m, 'x) RenderCoreO7_scheme. samplesTaken t = 0 \<and> cleared (accumulator (gpu t))
           \<and> gpu (Render_O7 E view converge True s) = gpu (renderImage_O7 E view t)
           \<and> trace (Render_O7 E view converge True s) = trace (renderImage_O7 E view t))
      \<and> samplesTaken (Render_O7 E view converge False s) = scrspp s
      \<and> samplesTaken (Render_O7 E view converge True s) = 0
      \<and> firstConvergingFrame (Render_O7 E view converge async s) = (converge = Restart))
   \<and> (gpuHasSceneData s \<and> allocated_O7 s \<and> converge = Converge \<longrightarrow>
        \<not> firstConvergingFrame (Render_O7 E view converge async s))
   \<and> (allocated_PBRT p \<and> restartFlag converge p \<longrightarrow>
        (\<exists>t. samplesTaken t = 0 \<and> cleared (accumulator (gpu t))
             \<and> Render_PBRT E view converge async p = renderImage_PBRT E view t)
        \<and> samplesTaken (Render_PBRT E view converge async p) = scrspp p
        \<and> firstConvergingFrame (Render_PBRT E view converge async p) = (converge = Restart))
   \<and> (allocated_PBRT p \<and> converge = Converge \<longrightarrow>
        \<not> firstConvergingFrame (Render_PBRT E view converge async p))"
proof (intro conjI impI)
  assume h: "gpuHasSceneData (s :: ('m, 'x) RenderCoreO7_scheme) \<and> allocated_O7 s
      \<and> restartFlag converge s"
  then have g: "gpuHasSceneData s" and r: "restartFlag converge s" by simp_all
  let ?s3 = "jitter (clearFlag converge
      ((pushStagedCopies E s)\<lparr>samplesTaken := 0, firstConvergingFrame := True\<rparr>))"
  have z: "samplesTaken ?s3 = 0"
    by (simp add: jitter_frame clearFlag_def)
  let ?t = "clearAccumulator (launch E optixAccelBuild ?s3)"
  have "Render_O7 E view converge False s
      = (FinalizeRender E (renderImage_O7 E view ?t))\<lparr>prevView := view\<rparr>"
    by (simp add: Render_O7_sync [OF g] restartFlag_push r RenderImpl_restart [OF z])
  with frame_start_O7 [of E ?s3] z
  have "samplesTaken ?t = 0 \<and> cleared (accumulator (gpu ?t))
           \<and> Render_O7 E view converge False s
               = (FinalizeRender E (renderImage_O7 E view ?t))\<lparr>prevView := view\<rparr>"
    by simp
  then show "\<exists>t. samplesTaken t = 0 \<and> cleared (accumulator (gpu t))
           \<and> Render_O7 E view converge False s
               = (FinalizeRender E (renderImage_O7 E view t))\<lparr>prevView := view\<rparr>"
    by (rule exI [where x = ?t])
  let ?s3a = "?s3\<lparr>asyncRenderInProgress := True\<rparr>"
  have za: "samplesTaken ?s3a = 0" using z by simp
  let ?ta = "clearAccumulator (launch E optixAccelBuild ?s3a)"
  have "gpu (Render_O7 E view converge True s) = gpu (renderImage_O7 E view ?ta)
      \<and> trace (Render_O7 E view converge True s) = trace (renderImage_O7 E view ?ta)"
    by (simp add: Render_O7_async [OF g] restartFlag_push r runWorker_def Let_def
        RenderImpl_restart [OF za])
  with frame_start_O7 [of E ?s3a] za
  have "samplesTaken ?ta = 0 \<and> cleared (accumulator (gpu ?ta))
           \<and> gpu (Render_O7 E view converge True s) = gpu (renderImage_O7 E view ?ta)
           \<and> trace (Render_O7 E view converge True s) = trace (renderImage_O7 E view ?ta)"
    by simp
  then show "\<exists>t :: ('m, 'x) RenderCoreO7_scheme. samplesTaken t = 0 \<and> cleared (accumulator (gpu t))
           \<and> gpu (Render_O7 E view converge True s) = gpu (renderImage_O7 E view t)
           \<and> trace (Render_O7 E view converge True s) = trace (renderImage_O7 E view t)"
    by (rule exI [where x = ?ta])
  show "samplesTaken (Render_O7 E view converge False s) = scrspp s"
    by (simp add: Render_O7_samples [OF g] r)
  show "samplesTaken (Render_O7 E view converge True s) = 0"
    by (simp add: Render_O7_samples [OF g] r)
  show "firstConvergingFrame (Render_O7 E view converge async s) = (converge = Restart)"
    by (rule Render_O7_flag [OF g])
next
  assume "gpuHasSceneData s \<and> allocated_O7 s \<and> converge = Converge"
  then show "\<not> firstConvergingFrame (Render_O7 E view converge async s)"
    by (simp add: Render_O7_flag)
next
  assume "allocated_PBRT p \<and> restartFlag converge p"
  then have r: "restartFlag converge p" by simp
  let ?t = "restart_PBRT E converge p"
  have "Render_PBRT E view converge async p = renderImage_PBRT E view ?t"
    by (rule Render_PBRT_start)
  with frame_start_PBRT [OF r, of E]
  have "samplesTaken ?t = 0 \<and> cleared (accumulator (gpu ?t))
             \<and> Render_PBRT E view converge async p = renderImage_PBRT E view ?t"
    by simp
  then show "\<exists>t. samplesTaken t = 0 \<and> cleared (accumulator (gpu t))
             \<and> Render_PBRT E view converge async p = renderImage_PBRT E view t"
    by (rule exI [where x = ?t])
  show "samplesTaken (Render_PBRT E view converge async p) = scrspp p"
    by (simp add: Render_PBRT_samples r)
  show "firstConvergingFrame (Render_PBRT E view converge async p) = (converge = Restart)"
    by (rule Render_PBRT_flag)
next
  assume "allocated_PBRT p \<and> converge = Converge"
  then show "\<not> firstConvergingFrame (Render_PBRT E view converge async p)"
    by (simp add: Render_PBRT_flag)
qed

subsection \<open>Render without scene data\<close>

text \<open>
  C4, as amended. In RenderCore_Optix7Filter, for every view, convergence mode and async
  flag, \<^verbatim>\<open>Render\<close> before scene data has reached the device (\<^verbatim>\<open>gpuHasSceneData\<close> false) returns
  at once: the core, the device and the log are what they were.
\<close>

theorem Render_without_scene:
  "\<not> gpuHasSceneData s \<Longrightarrow> Render_O7 E view converge async s = s"
  by (simp add: Render_O7_def)

lemma litO7_fields:
  "gpuHasSceneData (litO7 sc) = False" "firstConvergingFrame (litO7 sc) = False"
  "scrspp (litO7 sc) = 1" "samplesTaken (litO7 sc) = 0"
  by (simp_all add: litO7_eq)

lemma litPBRT_fields:
  "firstConvergingFrame (litPBRT sc) = False" "scrspp (litPBRT sc) = 1"
  "samplesTaken (litPBRT sc) = 0"
  by (simp_all add: litPBRT_eq)

lemma lit_buffers: "allocated_O7 (litO7 sc)" "allocated_PBRT (litPBRT sc)"
  by (simp_all add: litO7_def litPBRT_def SetTarget_allocated reallocate_def viewport_simps
      screen_simps core_simps)

lemma lit_allocated:
  "allocated_O7 ((litO7 sc)\<lparr>gpuHasSceneData := b\<rparr>)"
  "allocated_PBRT ((litPBRT sc)\<lparr>firstConvergingFrame := b\<rparr>)"
  "allocated_PBRT (litPBRT sc)"
  using lit_buffers [of sc]
  by (simp_all add: allocated_O7_def allocated_PBRT_def bufSize_def)

theorem Render_without_scene_witness:
  "\<not> gpuHasSceneData (litO7 sceneLit)
   \<and> Render_O7 env3 view0 Restart True (litO7 sceneLit) = litO7 sceneLit"
  using Render_without_scene [of "litO7 sceneLit" env3 view0 Restart True]
  by (simp add: litO7_fields)

text \<open>
  The claim as stated fails in RenderCore_OptixPrime_PBRT, which has no such test: on the
  core as it is after \<^verbatim>\<open>Init\<close> and \<^verbatim>\<open>SetTarget\<close>, \<^verbatim>\<open>Render\<close> runs all three iterations of the
  loop and the sample count goes from 0 to 1.
\<close>

theorem Render_without_scene_counterexample:
  "samplesTaken (litPBRT sceneDark) = 0
   \<and> samplesTaken (Render_PBRT env3 view0 Converge False (litPBRT sceneDark)) = 1
   \<and> iterations (issued (litPBRT sceneDark)
        (Render_PBRT env3 view0 Converge False (litPBRT sceneDark))) = 3"
  by (simp add: Render_PBRT_samples Render_PBRT_iterations litPBRT_fields restart_cases env3_simps)

subsection \<open>Restart and converge on the small screen\<close>

theorem converge_restart_witness:
  "gpuHasSceneData ((litO7 sceneLit)\<lparr>gpuHasSceneData := True\<rparr>)
   \<and> allocated_O7 ((litO7 sceneLit)\<lparr>gpuHasSceneData := True\<rparr>)
   \<and> allocated_PBRT ((litPBRT sceneLit)\<lparr>firstConvergingFrame := True\<rparr>)
   \<and> restartFlag Restart ((litO7 sceneLit)\<lparr>gpuHasSceneData := True\<rparr>)
   \<and> samplesTaken (Render_O7 env3 view0 Restart False ((litO7 sceneLit)\<lparr>gpuHasSceneData := True\<rparr>)) = 1
   \<and> samplesTaken (Render_O7 env3 view0 Restart True ((litO7 sceneLit)\<lparr>gpuHasSceneData := True\<rparr>)) = 0
   \<and> firstConvergingFrame
        (Render_O7 env3 view0 Restart False ((litO7 sceneLit)\<lparr>gpuHasSceneData := True\<rparr>))
   \<and> restartFlag Converge ((litPBRT sceneLit)\<lparr>firstConvergingFrame := True\<rparr>)
   \<and> samplesTaken
        (Render_PBRT env3 view0 Converge False ((litPBRT sceneLit)\<lparr>firstConvergingFrame := True\<rparr>)) = 1
   \<and> \<not> firstConvergingFrame
        (Render_PBRT env3 view0 Converge False ((litPBRT sceneLit)\<lparr>firstConvergingFrame := True\<rparr>))"
  using converge_restart [where s = "(litO7 sceneLit)\<lparr>gpuHasSceneData := True\<rparr>"
      and converge = Restart and E = env3 and view = view0 and async = False
      and p = "litPBRT sceneLit"]
    converge_restart [where s = "(litO7 sceneLit)\<lparr>gpuHasSceneData := True\<rparr>"
      and converge = Converge and E = env3 and view = view0 and async = False
      and p = "(litPBRT sceneLit)\<lparr>firstConvergingFrame := True\<rparr>"]
  by (simp add: restart_cases litO7_fields litPBRT_fields lit_allocated)

text \<open>
  The claim as stated fails for a call that finds no scene data: RenderCore_Optix7Filter
  returns before the restart is handled, and the flag stays false after
  \<^verbatim>\<open>Render( view, Restart, false )\<close>.
\<close>

theorem converge_restart_counterexample:
  "\<not> gpuHasSceneData (litO7 sceneLit)
   \<and> \<not> firstConvergingFrame (Render_O7 env3 view0 Restart False (litO7 sceneLit))"
  by (simp add: Render_O7_def litO7_fields)

subsection \<open>A frame whose paths all end\<close>

lemma kernel_spec_devMem: "devMem (kernel_spec op g) = devMem g"
  by (cases op) (simp_all add: kernel_spec_def)

lemma shadePass_dark:
  "\<forall>i. \<not> fst (outcome i) \<Longrightarrow> extensionRays (shadePass outcome pathCount c) = extensionRays c"
  by (simp add: shadePass_def fold_shadePath_extensionRays)

lemma bounce_PBRT_pathCounts:
  "\<exists>ops. trace (snd (snd (bounce_PBRT E view pathLength pathCount u))) = trace u @ ops
      \<and> pathCounts ops = [pathCount]"
  by (simp add: bounce_PBRT_trace Let_def trace_extendShade_PBRT)

lemma spec_bounce_PBRT_devMem:
  "kernel E = kernel_spec \<Longrightarrow>
   devMem (gpu (snd (snd (bounce_PBRT E view pathLength pathCount u)))) = devMem (gpu u)"
  by (simp add: bounce_PBRT_def Let_def launch_def overflow_PBRT_def CopyToDevice_def
      CopyToHost_def swapBuffers_def extendShade_PBRT_def kernel_spec_devMem)

lemma spec_dark_bounce_PBRT:
  "kernel E = kernel_spec \<Longrightarrow> \<forall>pl i. \<not> fst (devMem (gpu u) pl i)
     \<Longrightarrow> extensionRays (devCounters (gpu u)) = 0
     \<Longrightarrow> pathLength \<noteq> MAXPATHLENGTH E
     \<Longrightarrow> fst (snd (bounce_PBRT E view pathLength pathCount u)) = 0"
  by (simp add: bounce_PBRT_pathCount spec_readback_PBRT shadePass_dark)

text \<open>With a device as the specification describes it and a scene in which no path ever
  continues, the loop of the OptiX Prime core still runs all its iterations: the first
  shading pass gets the frame's paths, every later one gets none.\<close>

lemma dark_wavefront_PBRT:
  assumes k: "kernel E = kernel_spec"
    and dark: "\<forall>pl i. \<not> fst (devMem (gpu s) pl i)"
    and z: "extensionRays (devCounters (gpu s)) = 0"
    and M: "1 \<le> MAXPATHLENGTH E"
  shows "pathCounts (issued s (snd (wavefront_PBRT E view (MAXPATHLENGTH E) 1 pathCount s)))
           = pathCount # replicate (MAXPATHLENGTH E - 1) 0"
proof -
  let ?M = "MAXPATHLENGTH E"
  let ?P = "\<lambda>pl (pc :: uint) u. 1 \<le> pl \<and> pl \<le> ?M
              \<and> devMem (gpu u) = devMem (gpu s) \<and> extensionRays (devCounters (gpu u)) = 0
              \<and> trace u = trace s @ issued s u
              \<and> pathCounts (issued s u) @ [pc] = pathCount # replicate (pl - 1) 0"
  let ?Q = "\<lambda>r. pathCounts (issued s (snd r)) = pathCount # replicate (?M - 1) 0"
  have "?Q (wavefront_PBRT E view ?M 1 pathCount s)"
  proof (rule wavefront_PBRT_rule [where P = ?P and Q = ?Q])
    show "?P 1 pathCount s"
      using z M by (simp add: issued_def)
  next
    fix pl pc u
    assume P: "?P pl pc u" and le: "pl \<le> ?M" and c: "fst (bounce_PBRT E view pl pc u)"
    let ?u = "snd (snd (bounce_PBRT E view pl pc u))"
    from c have ne: "pl \<noteq> ?M" by (simp add: bounce_PBRT_continue)
    obtain ops where ops: "trace ?u = trace u @ ops" "pathCounts ops = [pc]"
      using bounce_PBRT_pathCounts [of E view pl pc u] by blast
    from P have ext: "trace u = trace s @ issued s u" by simp
    note st = issued_step [OF ext ops(1)]
    from P dark have d: "\<forall>pl i. \<not> fst (devMem (gpu u) pl i)" by simp
    from P have zu: "extensionRays (devCounters (gpu u)) = 0" by simp
    have pc0: "fst (snd (bounce_PBRT E view pl pc u)) = 0"
      by (rule spec_dark_bounce_PBRT [OF k d zu ne])
    have "pathCounts (issued s ?u) @ [0] = (pathCount # replicate (pl - 1) 0) @ [0]"
      using st P ops(2) by (simp add: pathCounts_append)
    also have "\<dots> = pathCount # replicate pl 0"
      using P by (cases pl) (simp_all add: replicate_append_same)
    finally have pcs: "pathCounts (issued s ?u) @ [0] = pathCount # replicate pl 0" .
    show "?P (pl + 1) (fst (snd (bounce_PBRT E view pl pc u))) ?u"
      using st P ne le pcs pc0 spec_bounce_PBRT_devMem [OF k, of view pl pc u]
        spec_bounce_PBRT_reset [OF k c]
      by simp
  next
    fix pl pc u
    assume P: "?P pl pc u" and le: "pl \<le> ?M" and c: "\<not> fst (bounce_PBRT E view pl pc u)"
    let ?u = "snd (snd (bounce_PBRT E view pl pc u))"
    from c have eq: "pl = ?M" by (simp add: bounce_PBRT_continue)
    obtain ops where ops: "trace ?u = trace u @ ops" "pathCounts ops = [pc]"
      using bounce_PBRT_pathCounts [of E view pl pc u] by blast
    from P have ext: "trace u = trace s @ issued s u" by simp
    note st = issued_step [OF ext ops(1)]
    show "?Q (snd (bounce_PBRT E view pl pc u))"
      using st P ops(2) eq by (simp add: pathCounts_append)
  next
    fix pl pc u
    assume P: "?P pl pc u" and gt: "\<not> pl \<le> ?M"
    then show "?Q (pc, u)" by simp
  qed
  then show ?thesis by simp
qed

text \<open>
  C2, the failing input. RenderCore_OptixPrime_PBRT renders a frame of a scene in which every
  path ends at its first hit, on one pixel, with \<^verbatim>\<open>MAXPATHLENGTH\<close> 3. The path count read back
  after the first shading pass is zero, and the loop goes on: the log shows three shading
  passes, launched with 1, 0 and 0 paths.
\<close>

theorem dark_frame_keeps_iterating:
  "pathCounts (issued (litPBRT sceneDark)
     (Render_PBRT env3 view0 Restart False (litPBRT sceneDark))) = [1, 0, 0]
   \<and> iterations (issued (litPBRT sceneDark)
     (Render_PBRT env3 view0 Restart False (litPBRT sceneDark))) = 3
   \<and> MAXPATHLENGTH env3 = 3"
proof -
  let ?s3 = "loopStart_PBRT env3 view0 (restart_PBRT env3 Restart (litPBRT sceneDark))"
  have k: "kernel env3 = kernel_spec" by (simp add: env3_simps)
  have m: "devMem (gpu ?s3) = sceneDark"
    by (simp add: loopStart_PBRT_def primaryRays_PBRT_def restart_PBRT_def Let_def launch_def
        clearFlag_def clearAccumulator_def UpdateToplevel_PBRT_def env3_simps kernel_spec_devMem
        lit_simps restart_cases split: prod.split)
  then have d: "\<forall>pl i. \<not> fst (devMem (gpu ?s3) pl i)"
    by (simp add: scene_simps)
  have z: "extensionRays (devCounters (gpu ?s3)) = 0"
    by (simp add: loopStart_PBRT_def spec_frame_start_PBRT [OF k])
  have M: "1 \<le> MAXPATHLENGTH env3" by (simp add: env3_simps)
  have "pathCounts (issued ?s3 (snd (wavefront_PBRT env3 view0 (MAXPATHLENGTH env3) 1 1 ?s3)))
      = 1 # replicate (MAXPATHLENGTH env3 - 1) 0"
    by (rule dark_wavefront_PBRT [OF k d z M])
  then show ?thesis
    by (simp add: Render_PBRT_pathCounts Render_PBRT_iterations litPBRT_eq env3_simps
        numeral_3_eq_3)
qed

subsection \<open>Paths never multiply, pass after pass\<close>

lemma nonincreasing_snoc:
  "nonincreasing (xs @ [a]) \<Longrightarrow> unat b \<le> unat a \<Longrightarrow> nonincreasing (xs @ [a, b])"
  by (induction xs rule: nonincreasing.induct) simp_all

lemma bounce_O7_pathCounts:
  "\<exists>ops. trace (snd (snd (snd (bounce_O7 E view pathLength pathCount u)))) = trace u @ ops
      \<and> pathCounts ops = [pathCount] \<and> iterations ops = 1"
proof -
  have t: "trace (snd (snd (snd (bounce_O7 E view pathLength pathCount u))))
      = trace u @ issued u (snd (snd (snd (bounce_O7 E view pathLength pathCount u))))"
    by (simp add: issued_def bounce_O7_def Let_def overflow_O7_trace trace_CopyToHost
        trace_shade_O7 trace_extend_O7)
  have "pathCounts (issued u (snd (snd (snd (bounce_O7 E view pathLength pathCount u))))) = [pathCount]
      \<and> iterations (issued u (snd (snd (snd (bounce_O7 E view pathLength pathCount u))))) = 1"
    by (simp add: bounce_O7_issued Let_def drop_trace_shade_O7 pathCounts_append
        iterations_simps log_append)
  with t show ?thesis by blast
qed

text \<open>The loop of the OptiX core against the device as the specification describes it: the
  path counts of its shading passes, followed by the last count read back, never grow; and
  the loop has at most \<^verbatim>\<open>MAXPATHLENGTH\<close> iterations.\<close>

lemma spec_wavefront_O7:
  assumes k: "kernel E = kernel_spec"
  shows "nonincreasing (pathCounts (issued s (snd (snd (wavefront_O7 E view 1 pathCount counters s))))
           @ [fst (wavefront_O7 E view 1 pathCount counters s)])
     \<and> trace (snd (snd (wavefront_O7 E view 1 pathCount counters s)))
         = trace s @ issued s (snd (snd (wavefront_O7 E view 1 pathCount counters s)))
     \<and> iterations (issued s (snd (snd (wavefront_O7 E view 1 pathCount counters s))))
         \<le> MAXPATHLENGTH E"
proof -
  let ?M = "MAXPATHLENGTH E"
  let ?P = "\<lambda>pl (pc :: uint) (c :: Counters) u. 1 \<le> pl \<and> pl \<le> ?M + 1
              \<and> trace u = trace s @ issued s u
              \<and> nonincreasing (pathCounts (issued s u) @ [pc])
              \<and> iterations (issued s u) = pl - 1"
  let ?Q = "\<lambda>r. nonincreasing (pathCounts (issued s (snd (snd r))) @ [fst r])
              \<and> trace (snd (snd r)) = trace s @ issued s (snd (snd r))
              \<and> iterations (issued s (snd (snd r))) \<le> ?M"
  have "?Q (wavefront_O7 E view 1 pathCount counters s)"
  proof (rule wavefront_O7_rule [where P = ?P and Q = ?Q])
    show "?P 1 pathCount counters s"
      by (simp add: issued_def iterations_simps)
  next
    fix pl pc c u
    assume P: "?P pl pc c u" and le: "pl \<le> ?M"
    let ?b = "bounce_O7 E view pl pc u"
    let ?u = "snd (snd (snd ?b))"
    obtain ops where ops: "trace ?u = trace u @ ops" "pathCounts ops = [pc]" "iterations ops = 1"
      using bounce_O7_pathCounts [of E view pl pc u] by blast
    from P have ext: "trace u = trace s @ issued s u" by simp
    note st = issued_step [OF ext ops(1)]
    have b: "unat (fst (snd ?b)) \<le> unat pc"
      by (simp add: bounce_O7_pathCount spec_readback_O7 [OF k] shadePass_bound)
    have n: "nonincreasing (pathCounts (issued s ?u) @ [fst (snd ?b)])"
      using st P ops(2) nonincreasing_snoc [OF _ b, of "pathCounts (issued s u)"]
      by (simp add: pathCounts_append)
    have i: "iterations (issued s ?u) = pl"
      using st P ops(3) by (simp add: log_append)
    show "fst ?b \<Longrightarrow> ?P (pl + 1) (fst (snd ?b)) (fst (snd (snd ?b))) ?u"
      using st n i le by simp
    show "\<not> fst ?b \<Longrightarrow> ?Q (snd ?b)"
      using st n i le by simp
  next
    fix pl pc c u
    assume P: "?P pl pc c u" and gt: "\<not> pl \<le> ?M"
    from P have "iterations (issued s u) \<le> ?M" by arith
    with P show "?Q (pc, c, u)" by simp
  qed
  then show ?thesis by simp
qed

text \<open>The same for the loop of the OptiX Prime core, entered with the counter reset.\<close>

lemma spec_wavefront_PBRT:
  fixes s :: "(scene, 'x) RenderCorePBRT_scheme"
  assumes k: "kernel E = kernel_spec"
    and z: "extensionRays (devCounters (gpu s)) = 0"
  shows "nonincreasing (pathCounts (issued s (snd (wavefront_PBRT E view (MAXPATHLENGTH E) 1 pathCount s)))
           @ [fst (wavefront_PBRT E view (MAXPATHLENGTH E) 1 pathCount s)])"
proof -
  let ?M = "MAXPATHLENGTH E"
  let ?P = "\<lambda>pl (pc :: uint) (u :: (scene, 'x) RenderCorePBRT_scheme). extensionRays (devCounters (gpu u)) = 0
              \<and> trace u = trace s @ issued s u
              \<and> nonincreasing (pathCounts (issued s u) @ [pc])"
  let ?Q = "\<lambda>r. nonincreasing (pathCounts (issued s (snd r)) @ [fst r])"
  have "?Q (wavefront_PBRT E view ?M 1 pathCount s)"
  proof (rule wavefront_PBRT_rule [where P = ?P and Q = ?Q])
    show "?P 1 pathCount s"
      using z by (simp add: issued_def)
  next
    fix pl pc u
    assume P: "?P pl pc u" and le: "pl \<le> ?M"
    let ?b = "bounce_PBRT E view pl pc u"
    let ?u = "snd (snd ?b)"
    obtain ops where ops: "trace ?u = trace u @ ops" "pathCounts ops = [pc]"
      using bounce_PBRT_pathCounts [of E view pl pc u] by blast
    from P have ext: "trace u = trace s @ issued s u" by simp
    note st = issued_step [OF ext ops(1)]
    from P have zu: "extensionRays (devCounters (gpu u)) = 0" by simp
    have b: "unat (fst (snd ?b)) \<le> unat pc"
      by (simp add: bounce_PBRT_pathCount spec_readback_PBRT [OF k] shadePass_bound zu)
    have n: "nonincreasing (pathCounts (issued s ?u) @ [fst (snd ?b)])"
      using st P ops(2) nonincreasing_snoc [OF _ b, of "pathCounts (issued s u)"]
      by (simp add: pathCounts_append)
    show "fst ?b \<Longrightarrow> ?P (pl + 1) (fst (snd ?b)) ?u"
      using st n spec_bounce_PBRT_reset [OF k, of view pl pc u] by simp
    show "\<not> fst ?b \<Longrightarrow> ?Q (snd ?b)"
      using n by simp
  next
    fix pl pc u
    assume P: "?P pl pc u" and gt: "\<not> pl \<le> ?M"
    then show "?Q (pc, u)" by simp
  qed
  then show ?thesis by simp
qed


lemma nonincreasing_front: "nonincreasing (xs @ ys) \<Longrightarrow> nonincreasing xs"
  by (induction xs rule: nonincreasing.induct) simp_all

text \<open>The frame of the OptiX core: the path counts of its shading passes never grow.\<close>

lemma spec_renderImage_O7:
  assumes k: "kernel E = kernel_spec"
  shows "nonincreasing (pathCounts (issued s (renderImage_O7 E view s)))
     \<and> trace (renderImage_O7 E view s) = trace s @ issued s (renderImage_O7 E view s)"
proof -
  let ?s3 = "s\<lparr>coreStats := (coreStats s)\<lparr>cs_totalExtensionRays := 0, cs_totalShadowRays := 0\<rparr>\<rparr>"
  let ?p = "paramsToDevice view (if filterEnabled (vars ?s3) \<noteq> 0 then j0 ?s3 else 0xC0A00000)
              (j1 ?s3) (samplesTaken ?s3)"
  let ?s4 = "launch E ?p ?s3"
  let ?pc = "scrwidth ?s4 * scrheight ?s4 * scrspp ?s4"
  let ?s5 = "?s4\<lparr>coreStats := (coreStats ?s4)\<lparr>deepRayCount := 0, primaryRayCount := ?pc\<rparr>\<rparr>"
  let ?w = "wavefront_O7 E view 1 ?pc (uninitCounters E) ?s5"
  let ?s6 = "snd (snd ?w)"
  have l: "trace ?s6 = trace ?s5 @ issued ?s5 ?s6"
    and n: "nonincreasing (pathCounts (issued ?s5 ?s6) @ [fst ?w])"
    using spec_wavefront_O7 [OF k, of ?s5 view ?pc "uninitCounters E"] by simp_all
  have t5: "trace ?s5 = trace s @ [?p]"
    by (simp add: trace_launch)
  have "\<exists>post. trace (renderImage_O7 E view s) = trace ?s6 @ post \<and> pathCounts post = []"
    by (simp add: renderImage_O7_def Let_def split_beta trace_launch)
  then obtain post where post: "trace (renderImage_O7 E view s) = trace ?s6 @ post"
      "pathCounts post = []"
    by blast
  have i: "issued s (renderImage_O7 E view s) = [?p] @ issued ?s5 ?s6 @ post"
    unfolding issued_def [of s] post(1) l t5 by simp
  have e: "trace (renderImage_O7 E view s) = trace s @ issued s (renderImage_O7 E view s)"
    unfolding i unfolding post(1) l t5 by simp
  have "pathCounts (issued s (renderImage_O7 E view s)) = pathCounts (issued ?s5 ?s6)"
    unfolding i using post(2) by (simp add: pathCounts_append)
  with nonincreasing_front [OF n] e show ?thesis by simp
qed

lemma spec_RenderImpl:
  assumes k: "kernel E = kernel_spec"
  shows "nonincreasing (pathCounts (issued s (RenderImpl E view s)))"
proof -
  let ?s1 = "launch E optixAccelBuild s"
  let ?s2 = "if samplesTaken ?s1 = 0 then clearAccumulator ?s1 else ?s1"
  have "\<exists>pre. trace ?s2 = trace s @ pre \<and> pathCounts pre = []"
    by (simp add: trace_launch trace_clearAccumulator)
  then obtain pre where pre: "trace ?s2 = trace s @ pre" "pathCounts pre = []"
    by blast
  have e: "trace (renderImage_O7 E view ?s2) = trace ?s2 @ issued ?s2 (renderImage_O7 E view ?s2)"
    and n: "nonincreasing (pathCounts (issued ?s2 (renderImage_O7 E view ?s2)))"
    using spec_renderImage_O7 [OF k, of ?s2 view] by simp_all
  have "issued s (RenderImpl E view s) = pre @ issued ?s2 (renderImage_O7 E view ?s2)"
    unfolding issued_def [of s] RenderImpl_def Let_def e pre(1) by simp
  with n pre(2) show ?thesis
    by (simp add: pathCounts_append)
qed

text \<open>The frame of the OptiX Prime core.\<close>

lemma spec_Render_PBRT:
  assumes k: "kernel E = kernel_spec"
  shows "nonincreasing (pathCounts (issued s (Render_PBRT E view converge async s)))"
proof -
  let ?s3 = "loopStart_PBRT E view (restart_PBRT E converge s)"
  have z: "extensionRays (devCounters (gpu ?s3)) = 0"
    by (simp add: loopStart_PBRT_def spec_frame_start_PBRT [OF k])
  show ?thesis
    unfolding Render_PBRT_pathCounts
    by (rule nonincreasing_front [OF spec_wavefront_PBRT [OF k z]])
qed

text \<open>
  C3, against the device as the specification describes it. In every iteration of
  RenderCore_Optix7Filter's loop the \<^verbatim>\<open>extensionRays\<close> read back after the shading pass, which
  becomes the new path count, is at most the path count the pass was launched with. The same
  holds in RenderCore_OptixPrime_PBRT for an iteration that starts with the counter reset; the
  counter is reset when the frame starts (\<^verbatim>\<open>InitCountersForExtend\<close>) and again at the end of
  every iteration that goes on (\<^verbatim>\<open>InitCountersSubsequent\<close>). So over a whole frame of either
  core the path counts of the shading passes never grow from one pass to the next.
\<close>

theorem paths_never_multiply:
  "kernel E = kernel_spec \<longrightarrow>
     (case bounce_O7 E view pathLength pathCount s of
        (continue, pathCount1, counters, s1) \<Rightarrow>
          pathCount1 = extensionRays counters \<and> unat (extensionRays counters) \<le> unat pathCount)
     \<and> (extensionRays (devCounters (gpu t)) = 0 \<longrightarrow>
          (case bounce_PBRT E view pathLength pathCount t of
             (continue, pathCount1, t1) \<Rightarrow>
               unat (extensionRays (devCounters (gpu (extendShade_PBRT E view pathLength pathCount t))))
                 \<le> unat pathCount
               \<and> unat pathCount1 \<le> unat pathCount
               \<and> (continue \<longrightarrow> pathCount1 = extensionRays (counterBuffer t1)
                     \<and> extensionRays (devCounters (gpu t1)) = 0)))
     \<and> extensionRays (devCounters (gpu (primaryRays_PBRT E view t))) = 0
     \<and> nonincreasing (pathCounts (issued s (RenderImpl E view s)))
     \<and> nonincreasing (pathCounts (issued t (Render_PBRT E view converge async t)))"
proof (intro impI conjI)
  assume k: "kernel E = kernel_spec"
  show "case bounce_O7 E view pathLength pathCount s of
        (continue, pathCount1, counters, s1) \<Rightarrow>
          pathCount1 = extensionRays counters \<and> unat (extensionRays counters) \<le> unat pathCount"
    by (simp add: split_beta bounce_O7_def Let_def CopyToHost_def spec_readback_O7 [OF k]
        shadePass_bound)
  show "extensionRays (devCounters (gpu (primaryRays_PBRT E view t))) = 0"
    by (rule spec_frame_start_PBRT [OF k])
  show "nonincreasing (pathCounts (issued s (RenderImpl E view s)))"
    by (rule spec_RenderImpl [OF k])
  show "nonincreasing (pathCounts (issued t (Render_PBRT E view converge async t)))"
    by (rule spec_Render_PBRT [OF k])
  assume z: "extensionRays (devCounters (gpu t)) = 0"
  have b: "unat (extensionRays (devCounters (gpu (extendShade_PBRT E view pathLength pathCount t))))
      \<le> unat pathCount"
    by (simp add: spec_readback_PBRT [OF k] shadePass_bound z)
  have c: "fst (bounce_PBRT E view pathLength pathCount t) \<longrightarrow>
      fst (snd (bounce_PBRT E view pathLength pathCount t))
        = extensionRays (counterBuffer (snd (snd (bounce_PBRT E view pathLength pathCount t))))"
    by (simp add: bounce_PBRT_def Let_def launch_def CopyToHost_def overflow_PBRT_def
        CopyToDevice_def swapBuffers_def)
  show "case bounce_PBRT E view pathLength pathCount t of
             (continue, pathCount1, t1) \<Rightarrow>
               unat (extensionRays (devCounters (gpu (extendShade_PBRT E view pathLength pathCount t))))
                 \<le> unat pathCount
               \<and> unat pathCount1 \<le> unat pathCount
               \<and> (continue \<longrightarrow> pathCount1 = extensionRays (counterBuffer t1)
                     \<and> extensionRays (devCounters (gpu t1)) = 0)"
    using b c spec_bounce_PBRT_reset [OF k, of view pathLength pathCount t]
    by (simp add: split_beta bounce_PBRT_pathCount)
qed

theorem paths_never_multiply_witness:
  "kernel env3 = kernel_spec
   \<and> extensionRays (devCounters (gpu (litPBRT sceneLit))) = 0
   \<and> unat (fst (snd (bounce_O7 env3 view0 1 1 (litO7 sceneLit)))) \<le> unat (1 :: uint)
   \<and> unat (fst (snd (bounce_PBRT env3 view0 1 1 (litPBRT sceneLit)))) \<le> unat (1 :: uint)
   \<and> fst (bounce_PBRT env3 view0 1 1 (litPBRT sceneLit))
   \<and> extensionRays (devCounters (gpu (snd (snd (bounce_PBRT env3 view0 1 1 (litPBRT sceneLit)))))) = 0
   \<and> nonincreasing (pathCounts (issued (litO7 sceneLit) (RenderImpl env3 view0 (litO7 sceneLit))))
   \<and> nonincreasing (pathCounts (issued (litPBRT sceneLit)
         (Render_PBRT env3 view0 Restart False (litPBRT sceneLit))))"
  using paths_never_multiply [where E = env3 and view = view0 and pathLength = 1
      and pathCount = 1 and s = "litO7 sceneLit" and t = "litPBRT sceneLit"
      and converge = Restart and async = False]
  by (simp add: split_beta env3_simps lit_simps counters0_simps bounce_PBRT_def Let_def)

end
